theory Spec2Isabelle
  imports Main "HOL-Library.Char_ord" "HOL-Library.Word"
begin

section \<open>Go strings and formatting\<close>

text \<open>
  A Go string is a sequence of bytes; it is modelled as a \<open>string\<close> (a list of 8-bit
  characters). The functions of this section are those of Go's packages \<open>strings\<close>,
  \<open>fmt\<close> and \<open>unicode/utf8\<close> that the program calls.
\<close>

text \<open>\<open>strings.HasPrefix\<close> and \<open>strings.HasSuffix\<close>.\<close>

definition HasPrefix :: "string \<Rightarrow> string \<Rightarrow> bool" where
  "HasPrefix s prefix = (length prefix \<le> length s \<and> take (length prefix) s = prefix)"

definition HasSuffix :: "string \<Rightarrow> string \<Rightarrow> bool" where
  "HasSuffix s suffix =
     (length suffix \<le> length s \<and> drop (length s - length suffix) s = suffix)"

text \<open>\<open>strings.Contains(s, substr)\<close>: \<open>substr\<close> occurs at some offset of \<open>s\<close>.\<close>

fun Contains :: "string \<Rightarrow> string \<Rightarrow> bool" where
  "Contains [] substr = (substr = [])"
| "Contains (c # cs) substr = (HasPrefix (c # cs) substr \<or> Contains cs substr)"

text \<open>\<open>strings.Split(s, sep)\<close> for a separator of one byte, the only use the program makes.\<close>

fun Split :: "string \<Rightarrow> char \<Rightarrow> string list" where
  "Split [] sep = [[]]"
| "Split (c # cs) sep =
     (if c = sep then [] # Split cs sep
      else (case Split cs sep of [] \<Rightarrow> [[c]] | l # ls \<Rightarrow> (c # l) # ls))"

text \<open>\<open>strings.Join(elems, sep)\<close>.\<close>

fun Join :: "string list \<Rightarrow> string \<Rightarrow> string" where
  "Join [] sep = []"
| "Join [e] sep = e"
| "Join (e # f # es) sep = e @ sep @ Join (f # es) sep"

text \<open>
  \<open>strings.ToUpper\<close> and \<open>strings.ToLower\<close>. On a string of ASCII bytes only they convert
  byte by byte; on any other string Go maps every rune through the Unicode tables
  (\<open>strings.Map(unicode.ToUpper, s)\<close>). The tables are not part of the program: that
  mapping is the parameter \<open>m\<close>.
\<close>

definition isASCII :: "string \<Rightarrow> bool" where
  "isASCII s = list_all (\<lambda>c. c < CHR 0x80) s"

definition upperByte :: "char \<Rightarrow> char" where
  "upperByte c = (if CHR ''a'' \<le> c \<and> c \<le> CHR ''z'' then char_of (of_char c - (32::nat)) else c)"

definition lowerByte :: "char \<Rightarrow> char" where
  "lowerByte c = (if CHR ''A'' \<le> c \<and> c \<le> CHR ''Z'' then char_of (of_char c + (32::nat)) else c)"

definition ToUpper :: "(string \<Rightarrow> string) \<Rightarrow> string \<Rightarrow> string" where
  "ToUpper m s = (if isASCII s then map upperByte s else m s)"

definition ToLower :: "(string \<Rightarrow> string) \<Rightarrow> string \<Rightarrow> string" where
  "ToLower m s = (if isASCII s then map lowerByte s else m s)"

text \<open>The verb \<open>%d\<close> of \<open>fmt.Sprintf\<close>: a decimal numeral, with a sign when negative.\<close>

fun decimal :: "nat \<Rightarrow> string" where
  "decimal n =
     (if n < 10 then [''0123456789'' ! n]
      else decimal (n div 10) @ [''0123456789'' ! (n mod 10)])"

declare decimal.simps [simp del]

definition fmt_d :: "int \<Rightarrow> string" where
  "fmt_d i = (if i < 0 then ''-'' @ decimal (nat (- i)) else decimal (nat i))"

text \<open>
  The verb \<open>%c\<close> applied to the rune that a \<open>range\<close> loop decodes at the head of a string:
  the bytes of a well-formed UTF-8 sequence are printed as they are, and an ill-formed head
  byte decodes to U+FFFD, printed as \<open>EF BF BD\<close> (\<open>utf8.DecodeRuneInString\<close>).
\<close>

definition RuneError :: string where
  "RuneError = [CHR 0xEF, CHR 0xBF, CHR 0xBD]"

definition contByte :: "char \<Rightarrow> bool" where
  "contByte c = (CHR 0x80 \<le> c \<and> c \<le> CHR 0xBF)"

fun fmt_c :: "string \<Rightarrow> string" where
  "fmt_c [] = RuneError"
| "fmt_c (c0 # cs) =
     (if c0 < CHR 0x80 then [c0]
      else if c0 < CHR 0xC2 \<or> CHR 0xF4 < c0 then RuneError
      else if c0 < CHR 0xE0 then
        (case cs of c1 # _ \<Rightarrow> if contByte c1 then [c0, c1] else RuneError | _ \<Rightarrow> RuneError)
      else if c0 < CHR 0xF0 then
        (case cs of c1 # c2 # _ \<Rightarrow>
           if (if c0 = CHR 0xE0 then CHR 0xA0 else CHR 0x80) \<le> c1
              \<and> c1 \<le> (if c0 = CHR 0xED then CHR 0x9F else CHR 0xBF) \<and> contByte c2
           then [c0, c1, c2] else RuneError
         | _ \<Rightarrow> RuneError)
      else
        (case cs of c1 # c2 # c3 # _ \<Rightarrow>
           if (if c0 = CHR 0xF0 then CHR 0x90 else CHR 0x80) \<le> c1
              \<and> c1 \<le> (if c0 = CHR 0xF4 then CHR 0x8F else CHR 0xBF)
              \<and> contByte c2 \<and> contByte c3
           then [c0, c1, c2, c3] else RuneError
         | _ \<Rightarrow> RuneError))"

section \<open>Package net of the Go library\<close>

text \<open>A foreign Go \<open>error\<close> value is known to the program by its text (\<open>err.Error()\<close>).\<close>

datatype go_error = GoError (errorText: string)

text \<open>\<open>strings.IndexByte\<close> and \<open>strings.LastIndexByte\<close>; \<open>None\<close> stands for \<open>-1\<close>.\<close>

fun IndexByte :: "string \<Rightarrow> char \<Rightarrow> nat option" where
  "IndexByte [] c = None"
| "IndexByte (x # xs) c = (if x = c then Some 0 else map_option Suc (IndexByte xs c))"

definition LastIndexByte :: "string \<Rightarrow> char \<Rightarrow> nat option" where
  "LastIndexByte s c =
     (case IndexByte (rev s) c of None \<Rightarrow> None | Some j \<Rightarrow> Some (length s - 1 - j))"

subsection \<open>SplitHostPort\<close>

text \<open>The text of a \<open>net.AddrError\<close>.\<close>

definition AddrError :: "string \<Rightarrow> string \<Rightarrow> go_error" where
  "AddrError addr why =
     GoError (if addr \<noteq> [] then ''address '' @ addr @ '': '' @ why else why)"

definition missingPort :: string where
  "missingPort = ''missing port in address''"

definition tooManyColons :: string where
  "tooManyColons = ''too many colons in address''"

text \<open>
  The tail of \<open>net.SplitHostPort\<close>: no bracket may open after offset \<open>j\<close> nor close after
  offset \<open>k\<close>; the port is what follows the last colon, at offset \<open>i\<close>.
\<close>

definition splitTail ::
  "string \<Rightarrow> string \<Rightarrow> nat \<Rightarrow> nat \<Rightarrow> nat \<Rightarrow> go_error + (string \<times> string)" where
  "splitTail hostport host j k i =
     (if IndexByte (drop j hostport) CHR ''['' \<noteq> None then
        Inl (AddrError hostport (''unexpected '' @ [CHR 0x27] @ ''['' @ [CHR 0x27] @ '' in address''))
      else if IndexByte (drop k hostport) CHR '']'' \<noteq> None then
        Inl (AddrError hostport (''unexpected '' @ [CHR 0x27] @ '']'' @ [CHR 0x27] @ '' in address''))
      else Inr (host, drop (i + 1) hostport))"

text \<open>
  \<open>net.SplitHostPort\<close>. The reads \<open>hostport[0]\<close> and \<open>hostport[end+1]\<close> are in range where
  they happen: a last colon exists, and \<open>end + 1\<close> is not the length.
\<close>

definition SplitHostPort :: "string \<Rightarrow> go_error + (string \<times> string)" where
  "SplitHostPort hostport =
     (case LastIndexByte hostport CHR '':'' of
        None \<Rightarrow> Inl (AddrError hostport missingPort)
      | Some i \<Rightarrow>
          if hd hostport = CHR ''['' then
            (case IndexByte hostport CHR '']'' of
               None \<Rightarrow>
                 Inl (AddrError hostport
                   (''missing '' @ [CHR 0x27] @ '']'' @ [CHR 0x27] @ '' in address''))
             | Some end \<Rightarrow>
                 if end + 1 = length hostport then Inl (AddrError hostport missingPort)
                 else if end + 1 = i then
                   splitTail hostport (take (end - 1) (drop 1 hostport)) 1 (end + 1) i
                 else if hostport ! (end + 1) = CHR '':'' then
                   Inl (AddrError hostport tooManyColons)
                 else Inl (AddrError hostport missingPort))
          else
            (let host = take i hostport in
             if IndexByte host CHR '':'' \<noteq> None then Inl (AddrError hostport tooManyColons)
             else splitTail hostport host 0 0 i))"

subsection \<open>ParseIP\<close>

text \<open>
  A \<open>net.IP\<close> is a slice of bytes, here a list of numbers below 256. \<open>net.ParseIP\<close> goes
  through \<open>netip.ParseAddr\<close>: the first of \<open>.\<close>, \<open>:\<close> and \<open>%\<close> in the text selects the
  IPv4 or the IPv6 parser.
\<close>

type_synonym IP = "nat list"

definition isDigit :: "char \<Rightarrow> bool" where
  "isDigit c = (CHR ''0'' \<le> c \<and> c \<le> CHR ''9'')"

definition digitVal :: "char \<Rightarrow> nat" where
  "digitVal c = of_char c - of_char CHR ''0''"

text \<open>
  \<open>parseIPv4Fields\<close>: \<open>val\<close> and \<open>digLen\<close> describe the octet being read, \<open>fields\<close> holds
  the octets finished (their number is the source's \<open>pos\<close>), \<open>prev\<close> is the byte before
  the head, absent at offset 0.
\<close>

fun parseIPv4Fields :: "string \<Rightarrow> nat \<Rightarrow> nat \<Rightarrow> nat list \<Rightarrow> char option \<Rightarrow> nat list option" where
  "parseIPv4Fields [] val digLen fields prev =
     (if length fields < 3 then None else Some (fields @ [val]))"
| "parseIPv4Fields (c # cs) val digLen fields prev =
     (if isDigit c then
        (if digLen = 1 \<and> val = 0 then None
         else if val * 10 + digitVal c > 255 then None
         else parseIPv4Fields cs (val * 10 + digitVal c) (digLen + 1) fields (Some c))
      else if c = CHR ''.'' then
        (if prev = None \<or> cs = [] \<or> prev = Some CHR ''.'' then None
         else if length fields = 3 then None
         else parseIPv4Fields cs 0 0 (fields @ [val]) (Some c))
      else None)"

definition parseIPv4 :: "string \<Rightarrow> nat list option" where
  "parseIPv4 s = parseIPv4Fields s 0 0 [] None"

definition isHexDigit :: "char \<Rightarrow> bool" where
  "isHexDigit c =
     ((CHR ''0'' \<le> c \<and> c \<le> CHR ''9'') \<or> (CHR ''a'' \<le> c \<and> c \<le> CHR ''f'')
      \<or> (CHR ''A'' \<le> c \<and> c \<le> CHR ''F''))"

definition hexVal :: "char \<Rightarrow> nat" where
  "hexVal c =
     (if CHR ''0'' \<le> c \<and> c \<le> CHR ''9'' then of_char c - of_char CHR ''0''
      else if CHR ''a'' \<le> c \<and> c \<le> CHR ''f'' then of_char c - of_char CHR ''a'' + 10
      else of_char c - of_char CHR ''A'' + 10)"

text \<open>
  The inner loop of \<open>parseIPv6\<close> reads the hexadecimal digits at the head of the text into
  an accumulator and fails when it meets a fifth digit: \<open>hexDigits\<close> are the digits read,
  \<open>hexAcc\<close> their value, \<open>afterHex\<close> the text left.
\<close>

definition hexDigits :: "string \<Rightarrow> string" where
  "hexDigits s = takeWhile isHexDigit s"

definition afterHex :: "string \<Rightarrow> string" where
  "afterHex s = dropWhile isHexDigit s"

definition hexAcc :: "string \<Rightarrow> nat" where
  "hexAcc s = foldl (\<lambda>acc c. acc * 16 + hexVal c) 0 (hexDigits s)"

text \<open>
  After the loop: the whole text must be used; a short address is filled with zeros at the
  ellipsis, and an ellipsis in a full address is an error.
\<close>

definition v6finish :: "string \<Rightarrow> nat \<Rightarrow> nat option \<Rightarrow> nat list \<Rightarrow> nat list option" where
  "v6finish s i ellipsis ip =
     (if s \<noteq> [] then None
      else if i < 16 then
        (case ellipsis of
           None \<Rightarrow> None
         | Some e \<Rightarrow> Some (take e ip @ replicate (16 - i) 0 @ drop e ip))
      else if ellipsis \<noteq> None then None
      else Some ip)"

text \<open>
  The outer loop of \<open>parseIPv6\<close>, run while \<open>i < 16\<close>: \<open>ip\<close> holds the \<open>i\<close> bytes written
  so far. A group followed by a dot starts the trailing IPv4 address, which is parsed from
  the head of the group; any other group adds its two bytes.
\<close>

function v6loop :: "string \<Rightarrow> nat \<Rightarrow> nat option \<Rightarrow> nat list \<Rightarrow> nat list option" where
  "v6loop s i ellipsis ip =
     (if \<not> i < 16 then v6finish s i ellipsis ip
      else if length (hexDigits s) > 4 then None
      else if hexDigits s = [] then None
      else if afterHex s \<noteq> [] \<and> hd (afterHex s) = CHR ''.'' then
        (if ellipsis = None \<and> i \<noteq> 12 then None
         else if i + 4 > 16 then None
         else
           (case parseIPv4Fields s 0 0 [] None of
              None \<Rightarrow> None
            | Some fields \<Rightarrow> v6finish [] (i + 4) ellipsis (ip @ fields)))
      else if afterHex s = [] then
        v6finish [] (i + 2) ellipsis (ip @ [hexAcc s div 256, hexAcc s mod 256])
      else if hd (afterHex s) \<noteq> CHR '':'' then None
      else if length (afterHex s) = 1 then None
      else if hd (tl (afterHex s)) = CHR '':'' then
        (if ellipsis \<noteq> None then None
         else if tl (tl (afterHex s)) = [] then
           v6finish [] (i + 2) (Some (i + 2)) (ip @ [hexAcc s div 256, hexAcc s mod 256])
         else
           v6loop (tl (tl (afterHex s))) (i + 2) (Some (i + 2))
             (ip @ [hexAcc s div 256, hexAcc s mod 256]))
      else v6loop (tl (afterHex s)) (i + 2) ellipsis (ip @ [hexAcc s div 256, hexAcc s mod 256]))"
  by pat_completeness auto
termination
  by (relation "measure (\<lambda>(s, i, ellipsis, ip). 16 - i)") auto

declare v6loop.simps [simp del]

text \<open>\<open>parseIPv6\<close>: the address and its zone.\<close>

definition parseIPv6 :: "string \<Rightarrow> (nat list \<times> string) option" where
  "parseIPv6 input =
     (let s = takeWhile (\<lambda>c. c \<noteq> CHR ''%'') input;
          zone = drop (length s + 1) input in
      if IndexByte input CHR ''%'' \<noteq> None \<and> zone = [] then None
      else if HasPrefix s ''::'' then
        (if drop 2 s = [] then Some (replicate 16 0, zone)
         else map_option (\<lambda>ip. (ip, zone)) (v6loop (drop 2 s) 0 (Some 0) []))
      else map_option (\<lambda>ip. (ip, zone)) (v6loop s 0 None []))"

definition v4InV6Prefix :: "nat list" where
  "v4InV6Prefix = [0, 0, 0, 0, 0, 0, 0, 0, 0, 0, 255, 255]"

text \<open>
  \<open>net.ParseIP\<close>: the 16-byte form of the address, an IPv4 address in its IPv4-in-IPv6
  form; \<open>None\<close> (Go's \<open>nil\<close>) when the text is no address or names a zone.
\<close>

definition ParseIP :: "string \<Rightarrow> IP option" where
  "ParseIP s =
     (case find (\<lambda>c. c = CHR ''.'' \<or> c = CHR '':'' \<or> c = CHR ''%'') s of
        None \<Rightarrow> None
      | Some c \<Rightarrow>
          if c = CHR ''.'' then map_option (\<lambda>fields. v4InV6Prefix @ fields) (parseIPv4 s)
          else if c = CHR '':'' then
            (case parseIPv6 s of
               None \<Rightarrow> None
             | Some (ip, zone) \<Rightarrow> if zone \<noteq> [] then None else Some ip)
          else None)"

subsection \<open>Methods of IP\<close>

definition IPv4 :: "nat \<Rightarrow> nat \<Rightarrow> nat \<Rightarrow> nat \<Rightarrow> IP" where
  "IPv4 a b c d = v4InV6Prefix @ [a, b, c, d]"

definition IPv6loopback :: IP where
  "IPv6loopback = [0, 0, 0, 0, 0, 0, 0, 0, 0, 0, 0, 0, 0, 0, 0, 1]"

definition To4 :: "IP \<Rightarrow> IP option" where
  "To4 ip =
     (if length ip = 4 then Some ip
      else if length ip = 16 \<and> list_all (\<lambda>b. b = 0) (take 10 ip)
              \<and> ip ! 10 = 255 \<and> ip ! 11 = 255
      then Some (drop 12 ip)
      else None)"

definition Equal :: "IP \<Rightarrow> IP \<Rightarrow> bool" where
  "Equal ip x =
     (if length ip = length x then ip = x
      else if length ip = 4 \<and> length x = 16 then take 12 x = v4InV6Prefix \<and> ip = drop 12 x
      else if length ip = 16 \<and> length x = 4 then take 12 ip = v4InV6Prefix \<and> drop 12 ip = x
      else False)"

definition IsLoopback :: "IP \<Rightarrow> bool" where
  "IsLoopback ip = (case To4 ip of Some ip4 \<Rightarrow> ip4 ! 0 = 127 | None \<Rightarrow> Equal ip IPv6loopback)"

section \<open>Package errors\<close>

datatype ErrorType = ErrorTypeInput | ErrorTypeNetwork | ErrorTypeDNS | ErrorTypeSystem

record DigError =
  Type :: ErrorType
  Message :: string
  Cause :: "go_error option"
  Domain :: string
  Server :: string

text \<open>A \<open>nil\<close> error is \<open>None\<close>. The constructors leave unset fields at Go's zero value.\<close>

definition NewInputError :: "string \<Rightarrow> go_error option \<Rightarrow> DigError" where
  "NewInputError message cause =
     \<lparr>Type = ErrorTypeInput, Message = message, Cause = cause, Domain = [], Server = []\<rparr>"

definition NewNetworkError :: "string \<Rightarrow> go_error option \<Rightarrow> string \<Rightarrow> DigError" where
  "NewNetworkError message cause server =
     \<lparr>Type = ErrorTypeNetwork, Message = message, Cause = cause, Domain = [], Server = server\<rparr>"

definition NewDNSError :: "string \<Rightarrow> go_error option \<Rightarrow> string \<Rightarrow> string \<Rightarrow> DigError" where
  "NewDNSError message cause domain server =
     \<lparr>Type = ErrorTypeDNS, Message = message, Cause = cause, Domain = domain, Server = server\<rparr>"

definition NewSystemError :: "string \<Rightarrow> go_error option \<Rightarrow> DigError" where
  "NewSystemError message cause =
     \<lparr>Type = ErrorTypeSystem, Message = message, Cause = cause, Domain = [], Server = []\<rparr>"

subsection \<open>ClassifyNetworkError\<close>

definition ClassifyNetworkError ::
  "(string \<Rightarrow> string) \<Rightarrow> go_error option \<Rightarrow> string \<Rightarrow> DigError option" where
  "ClassifyNetworkError lower err server =
     (case err of
        None \<Rightarrow> None
      | Some e \<Rightarrow>
          (let errStr = ToLower lower (errorText e) in
           if Contains errStr ''timeout'' \<or> Contains errStr ''deadline exceeded'' then
             Some (NewNetworkError
               ''DNS server timeout - server may be unreachable or overloaded'' err server)
           else if Contains errStr ''connection refused'' then
             Some (NewNetworkError
               ''DNS server refused connection - server may be down or not accepting queries''
               err server)
           else if Contains errStr ''no such host'' then
             Some (NewNetworkError ''DNS server hostname could not be resolved'' err server)
           else if Contains errStr ''network unreachable'' then
             Some (NewNetworkError
               ''Network unreachable - check your internet connection'' err server)
           else if Contains errStr ''permission denied'' then
             Some (NewNetworkError
               ''Permission denied - may need elevated privileges'' err server)
           else
             Some (NewNetworkError
               ''Network error occurred while contacting DNS server'' err server)))"

subsection \<open>ValidateDomain\<close>

definition validChar :: "char \<Rightarrow> bool" where
  "validChar r =
     ((CHR ''a'' \<le> r \<and> r \<le> CHR ''z'') \<or> (CHR ''A'' \<le> r \<and> r \<le> CHR ''Z'')
      \<or> (CHR ''0'' \<le> r \<and> r \<le> CHR ''9'') \<or> r = CHR ''.'' \<or> r = CHR ''-'' \<or> r = CHR ''_'')"

text \<open>
  The loop over the runes of the domain; \<open>i\<close> is the byte offset of the rune at the head.
  Every rune before the first rejected one is a single ASCII byte, so the offsets of runes
  and bytes agree up to it.
\<close>

fun checkChars :: "string \<Rightarrow> nat \<Rightarrow> DigError option" where
  "checkChars [] i = None"
| "checkChars (r # rs) i =
     (if \<not> validChar r then
        Some (NewInputError
          (''domain contains invalid character '' @ [CHR 0x27] @ fmt_c (r # rs) @ [CHR 0x27]
             @ '' at position '' @ decimal (i + 1)) None)
      else checkChars rs (i + 1))"

definition allNumeric :: "string \<Rightarrow> bool" where
  "allNumeric label = list_all (\<lambda>r. \<not> (r < CHR ''0'' \<or> CHR ''9'' < r)) label"

text \<open>The loop over the labels; the label at the head is the last one when no label follows.\<close>

fun checkLabels :: "string list \<Rightarrow> DigError option" where
  "checkLabels [] = None"
| "checkLabels (label # rest) =
     (if length label = 0 then
        Some (NewInputError ''domain cannot have empty labels'' None)
      else if length label > 63 then
        Some (NewInputError
          (''domain label '' @ [CHR 0x27] @ label @ [CHR 0x27] @ '' too long (''
             @ decimal (length label) @ '' characters, max 63)'') None)
      else if HasPrefix label ''-'' \<or> HasSuffix label ''-'' then
        Some (NewInputError
          (''domain label '' @ [CHR 0x27] @ label @ [CHR 0x27]
             @ '' cannot start or end with hyphen'') None)
      else if HasSuffix label ''_'' then
        Some (NewInputError
          (''domain label '' @ [CHR 0x27] @ label @ [CHR 0x27]
             @ '' cannot end with underscore'') None)
      else if rest = [] \<and> allNumeric label then
        Some (NewInputError ''top-level domain cannot be all numeric'' None)
      else checkLabels rest)"

definition ValidateDomain :: "string \<Rightarrow> DigError option" where
  "ValidateDomain domain =
     (if domain = [] then Some (NewInputError ''domain name cannot be empty'' None)
      else if length domain > 253 then
        Some (NewInputError
          (''domain name too long ('' @ decimal (length domain) @ '' characters, max 253)'')
          None)
      else
        (case checkChars domain 0 of
           Some e \<Rightarrow> Some e
         | None \<Rightarrow>
             if Contains domain ''..'' then
               Some (NewInputError ''domain cannot contain consecutive dots'' None)
             else if HasPrefix domain ''.'' \<or> HasSuffix domain ''.'' then
               Some (NewInputError ''domain cannot start or end with a dot'' None)
             else if HasPrefix domain ''-'' \<or> HasSuffix domain ''-'' then
               Some (NewInputError ''domain cannot start or end with a hyphen'' None)
             else if HasSuffix domain ''_'' then
               Some (NewInputError ''domain cannot end with an underscore'' None)
             else checkLabels (Split domain CHR ''.'')))"

subsection \<open>ValidateDNSServer\<close>

definition ValidateDNSServer :: "string \<Rightarrow> DigError option" where
  "ValidateDNSServer server =
     (if server = [] then Some (NewInputError ''DNS server cannot be empty'' None)
      else
        (case ParseIP server of
           None \<Rightarrow>
             Some (NewInputError
               ([CHR 0x27] @ server @ [CHR 0x27] @ '' is not a valid IP address'') None)
         | Some ip \<Rightarrow>
             if IsLoopback ip \<and> \<not> Equal ip (IPv4 127 0 0 1) \<and> \<not> Equal ip IPv6loopback then
               Some (NewInputError
                 ''loopback addresses other than 127.0.0.1 or ::1 are not recommended for DNS''
                 None)
             else None))"

subsection \<open>ValidateRecordType\<close>

definition validTypes :: "string \<rightharpoonup> bool" where
  "validTypes =
     [''A'' \<mapsto> True, ''AAAA'' \<mapsto> True, ''MX'' \<mapsto> True, ''CNAME'' \<mapsto> True, ''TXT'' \<mapsto> True]"

text \<open>Indexing a Go map with an absent key gives the zero value, \<open>false\<close>.\<close>

definition ValidateRecordType :: "(string \<Rightarrow> string) \<Rightarrow> string \<Rightarrow> DigError option" where
  "ValidateRecordType upper recordType =
     (if recordType = [] then Some (NewInputError ''record type cannot be empty'' None)
      else
        (let recordType = ToUpper upper recordType in
         if \<not> (case validTypes recordType of Some b \<Rightarrow> b | None \<Rightarrow> False) then
           Some (NewInputError
             (''unsupported record type '' @ [CHR 0x27] @ recordType @ [CHR 0x27]
                @ '' (supported: A, AAAA, MX, CNAME, TXT)'') None)
         else None))"

subsection \<open>ValidateDNSPort\<close>

text \<open>
  The loop over the runes of the port, with the running value \<open>portNum\<close>; it returns at the
  first rune that is no digit, so reading byte by byte gives the same result.
\<close>

fun portLoop :: "string \<Rightarrow> string \<Rightarrow> nat \<Rightarrow> DigError + nat" where
  "portLoop port [] portNum = Inr portNum"
| "portLoop port (r # rs) portNum =
     (if r < CHR ''0'' \<or> CHR ''9'' < r then
        Inl (NewInputError
          (''DNS server port '' @ [CHR 0x27] @ port @ [CHR 0x27] @ '' must be numeric'') None)
      else if portNum * 10 + (of_char r - of_char CHR ''0'') > 65535 then
        Inl (NewInputError
          (''DNS server port '' @ [CHR 0x27] @ port @ [CHR 0x27]
             @ '' is out of range (1-65535)'') None)
      else portLoop port rs (portNum * 10 + (of_char r - of_char CHR ''0'')))"

definition ValidateDNSPort :: "string \<Rightarrow> DigError option" where
  "ValidateDNSPort port =
     (if port = [] then Some (NewInputError ''DNS server port cannot be empty'' None)
      else
        (case portLoop port port 0 of
           Inl e \<Rightarrow> Some e
         | Inr portNum \<Rightarrow>
             if portNum < 1 \<or> portNum > 65535 then
               Some (NewInputError
                 (''DNS server port '' @ [CHR 0x27] @ port @ [CHR 0x27]
                    @ '' is out of range (1-65535)'') None)
             else None))"

section \<open>Package dns\<close>

subsection \<open>Messages of the DNS library\<close>

text \<open>
  A resource record of the answer section, by its Go type: the five types the program
  extracts, and any other type under its numeric code.
\<close>

datatype RR =
    dns_A IP
  | dns_AAAA IP
  | dns_MX "16 word" string
  | dns_CNAME string
  | dns_TXT "string list"
  | dns_Other nat

record Msg =
  Rcode :: int
  Answer :: "RR list"

definition RcodeSuccess :: int where "RcodeSuccess = 0"

definition RcodeFormatError :: int where "RcodeFormatError = 1"

definition RcodeServerFailure :: int where "RcodeServerFailure = 2"

definition RcodeNameError :: int where "RcodeNameError = 3"

definition RcodeNotImplemented :: int where "RcodeNotImplemented = 4"

definition RcodeRefused :: int where "RcodeRefused = 5"

definition TypeA :: "16 word" where "TypeA = 1"

definition TypeCNAME :: "16 word" where "TypeCNAME = 5"

definition TypeMX :: "16 word" where "TypeMX = 15"

definition TypeTXT :: "16 word" where "TypeTXT = 16"

definition TypeAAAA :: "16 word" where "TypeAAAA = 28"

subsection \<open>The world outside the program\<close>

text \<open>
  One exchange with a server, as \<open>Query\<close> sees it: the response (or \<open>nil\<close>), the error
  (or \<open>nil\<close>), and the time that \<open>time.Since\<close> measures around the call.
\<close>

record exchange =
  response :: "Msg option"
  exchangeErr :: "go_error option"
  elapsed :: int

text \<open>The question sent: name, type, the recursion-desired flag, and the server addressed.\<close>

record question =
  qname :: string
  qtype :: "16 word"
  recursionDesired :: bool
  qserver :: string

text \<open>
  What the program takes from its libraries and its host without computing it: the Unicode
  case tables, the text of an address (\<open>net.IP.String\<close>), \<open>dns.Fqdn\<close>, the operating
  system's name, the resolver configuration (\<open>dns.ClientConfigFromFile\<close>: an error or the
  list \<open>Servers\<close>), and the network (\<open>dns.Client.Exchange\<close> under a timeout).
\<close>

record world =
  unicodeUpper :: "string \<Rightarrow> string"
  unicodeLower :: "string \<Rightarrow> string"
  IP_String :: "IP \<Rightarrow> string"
  Fqdn :: "string \<Rightarrow> string"
  GOOS :: string
  ClientConfigFromFile :: "string \<Rightarrow> go_error + string list"
  Exchange :: "int \<Rightarrow> question \<Rightarrow> exchange"

subsection \<open>Result and client\<close>

record Result =
  Domain :: string
  RecordType :: string
  Records :: "string list"
  Server :: string
  QueryTime :: int
  Error :: "DigError option"

record client =
  timeout :: int

text \<open>Five seconds, in nanoseconds.\<close>

definition NewClient :: client where
  "NewClient = \<lparr>timeout = 5 * 1000000000\<rparr>"

definition SetTimeout :: "client \<Rightarrow> int \<Rightarrow> client" where
  "SetTimeout c duration = c\<lparr>timeout := duration\<rparr>"

subsection \<open>The system's resolver\<close>

definition getWindowsDNS :: "world \<Rightarrow> go_error + string" where
  "getWindowsDNS w =
     (case ClientConfigFromFile w [] of
        Inr servers \<Rightarrow>
          if length servers > 0 then Inr (hd servers @ '':53'')
          else Inl (GoError ''could not determine Windows DNS server configuration'')
      | Inl err \<Rightarrow> Inl (GoError ''could not determine Windows DNS server configuration''))"

definition getUnixDNS :: "world \<Rightarrow> go_error + string" where
  "getUnixDNS w =
     (case ClientConfigFromFile w ''/etc/resolv.conf'' of
        Inl err \<Rightarrow> Inl (GoError (''could not read resolv.conf: '' @ errorText err))
      | Inr servers \<Rightarrow>
          if length servers = 0 then Inl (GoError ''no DNS servers found in resolv.conf'')
          else Inr (hd servers @ '':53''))"

definition getSystemDNS :: "world \<Rightarrow> go_error + string" where
  "getSystemDNS w = (if GOOS w = ''windows'' then getWindowsDNS w else getUnixDNS w)"

subsection \<open>Query\<close>

text \<open>
  What a call of \<open>Query\<close> gives: the result, the error returned beside it, and the
  questions it sent to the network, in order.
\<close>

record outcome =
  result :: Result
  err :: "DigError option"
  sent :: "question list"

text \<open>The statement pair \<open>result.Error = err; return result, err\<close>.\<close>

definition failWith :: "Result \<Rightarrow> DigError option \<Rightarrow> question list \<Rightarrow> outcome" where
  "failWith r e qs = \<lparr>result = r\<lparr>Error := e\<rparr>, err = e, sent = qs\<rparr>"

text \<open>
  A host and port split off the server are validated one after the other; the server is
  kept as it was given (both branches of \<open>Query\<close> that call \<open>net.SplitHostPort\<close>).
\<close>

definition splitAndValidate :: "string \<Rightarrow> DigError + string" where
  "splitAndValidate server =
     (case SplitHostPort server of
        Inl e \<Rightarrow> Inl (NewInputError (''invalid DNS server format: '' @ server) (Some e))
      | Inr (host, port) \<Rightarrow>
          (case ValidateDNSServer host of
             Some e \<Rightarrow> Inl e
           | None \<Rightarrow>
               (case ValidateDNSPort port of
                  Some e \<Rightarrow> Inl e
                | None \<Rightarrow> Inr server)))"

text \<open>
  The part of \<open>Query\<close> under the comment ``Prepare DNS server'': the error it returns
  with, or \<open>finalServer\<close>.
\<close>

definition prepareServer :: "world \<Rightarrow> string \<Rightarrow> DigError + string" where
  "prepareServer w server =
     (if server = [] then
        (case getSystemDNS w of
           Inl e \<Rightarrow> Inr ''8.8.8.8:53''
         | Inr systemDNS \<Rightarrow> Inr systemDNS)
      else if HasPrefix server ''['' \<and> Contains server '']:'' then splitAndValidate server
      else if \<not> Contains server '':'' \<or> ParseIP server \<noteq> None then
        (case ValidateDNSServer server of
           Some e \<Rightarrow> Inl e
         | None \<Rightarrow>
             if Contains server '':'' \<and> ParseIP server \<noteq> None then
               Inr (''['' @ server @ '']:53'')
             else Inr (server @ '':53''))
      else splitAndValidate server)"

text \<open>The switch that selects the query type; \<open>None\<close> is its default branch.\<close>

definition queryTypeOf :: "string \<Rightarrow> 16 word option" where
  "queryTypeOf recordTypeUpper =
     (if recordTypeUpper = ''A'' then Some TypeA
      else if recordTypeUpper = ''AAAA'' then Some TypeAAAA
      else if recordTypeUpper = ''MX'' then Some TypeMX
      else if recordTypeUpper = ''CNAME'' then Some TypeCNAME
      else if recordTypeUpper = ''TXT'' then Some TypeTXT
      else None)"

text \<open>The switch on the response code, for a code that is not success.\<close>

definition rcodeError :: "int \<Rightarrow> string \<Rightarrow> string \<Rightarrow> DigError" where
  "rcodeError rcode domain finalServer =
     (if rcode = RcodeNameError then
        NewDNSError (''domain '' @ [CHR 0x27] @ domain @ [CHR 0x27] @ '' not found (NXDOMAIN)'')
          None domain finalServer
      else if rcode = RcodeServerFailure then
        NewDNSError ''DNS server experienced an internal failure'' None domain finalServer
      else if rcode = RcodeRefused then
        NewDNSError ''DNS server refused the query'' None domain finalServer
      else if rcode = RcodeNotImplemented then
        NewDNSError ''DNS server does not support this query type'' None domain finalServer
      else if rcode = RcodeFormatError then
        NewDNSError ''DNS query format error'' None domain finalServer
      else
        NewDNSError (''DNS query failed with response code '' @ fmt_d rcode)
          None domain finalServer)"

text \<open>
  The body of the loop over the answers: the switch on the upper-cased record type, each
  case with its type assertion; \<open>records\<close> is \<open>result.Records\<close>.
\<close>

definition extractAnswer :: "world \<Rightarrow> string \<Rightarrow> RR \<Rightarrow> string list \<Rightarrow> string list" where
  "extractAnswer w recordTypeUpper answer records =
     (if recordTypeUpper = ''A'' then
        (case answer of dns_A a \<Rightarrow> records @ [IP_String w a] | _ \<Rightarrow> records)
      else if recordTypeUpper = ''AAAA'' then
        (case answer of dns_AAAA a \<Rightarrow> records @ [IP_String w a] | _ \<Rightarrow> records)
      else if recordTypeUpper = ''MX'' then
        (case answer of
           dns_MX preference mx \<Rightarrow> records @ [decimal (unat preference) @ '' '' @ mx]
         | _ \<Rightarrow> records)
      else if recordTypeUpper = ''CNAME'' then
        (case answer of dns_CNAME target \<Rightarrow> records @ [target] | _ \<Rightarrow> records)
      else if recordTypeUpper = ''TXT'' then
        (case answer of dns_TXT txt \<Rightarrow> records @ [Join txt '' ''] | _ \<Rightarrow> records)
      else records)"

fun extractRecords :: "world \<Rightarrow> string \<Rightarrow> RR list \<Rightarrow> string list \<Rightarrow> string list" where
  "extractRecords w recordTypeUpper [] records = records"
| "extractRecords w recordTypeUpper (answer # answers) records =
     extractRecords w recordTypeUpper answers (extractAnswer w recordTypeUpper answer records)"

text \<open>\<open>Query\<close>, from the exchange on: \<open>r\<close> is the result with its server set.\<close>

definition exchangeAndExtract ::
  "world \<Rightarrow> client \<Rightarrow> Result \<Rightarrow> string \<Rightarrow> string \<Rightarrow> 16 word \<Rightarrow> string \<Rightarrow> outcome" where
  "exchangeAndExtract w c r domain recordTypeUpper queryType finalServer =
     (let msg = \<lparr>qname = Fqdn w domain, qtype = queryType, recursionDesired = True,
                 qserver = finalServer\<rparr>;
          x = Exchange w (timeout c) msg;
          r = r\<lparr>QueryTime := elapsed x\<rparr>
      in
        if exchangeErr x \<noteq> None then
          failWith r (ClassifyNetworkError (unicodeLower w) (exchangeErr x) finalServer) [msg]
        else
          (case response x of
             None \<Rightarrow>
               failWith r
                 (Some (NewNetworkError ''no response received from DNS server'' None finalServer))
                 [msg]
           | Some resp \<Rightarrow>
               if Rcode resp \<noteq> RcodeSuccess then
                 failWith r (Some (rcodeError (Rcode resp) domain finalServer)) [msg]
               else
                 (let r = r\<lparr>Records := extractRecords w recordTypeUpper (Answer resp) (Records r)\<rparr>
                  in
                    if length (Records r) = 0 then
                      failWith r
                        (Some (NewDNSError
                           (''no '' @ recordTypeUpper @ '' records found for domain ''
                              @ [CHR 0x27] @ domain @ [CHR 0x27])
                           None domain finalServer))
                        [msg]
                    else \<lparr>result = r, err = None, sent = [msg]\<rparr>)))"

definition Query :: "world \<Rightarrow> client \<Rightarrow> string \<Rightarrow> string \<Rightarrow> string \<Rightarrow> outcome" where
  "Query w c domain recordType server =
     (let r = \<lparr>Domain = domain, RecordType = recordType, Records = [], Server = server,
               QueryTime = 0, Error = None\<rparr>
      in
        case ValidateDomain domain of
          Some e \<Rightarrow> failWith r (Some e) []
        | None \<Rightarrow>
            (case ValidateRecordType (unicodeUpper w) recordType of
               Some e \<Rightarrow> failWith r (Some e) []
             | None \<Rightarrow>
                 (case prepareServer w server of
                    Inl e \<Rightarrow> failWith r (Some e) []
                  | Inr finalServer \<Rightarrow>
                      (let r = r\<lparr>Server := finalServer\<rparr>;
                           recordTypeUpper = ToUpper (unicodeUpper w) recordType
                       in
                         case queryTypeOf recordTypeUpper of
                           None \<Rightarrow>
                             failWith r
                               (Some (NewInputError
                                  (''record type '' @ [CHR 0x27] @ recordType @ [CHR 0x27]
                                     @ '' not supported'') None))
                               []
                         | Some queryType \<Rightarrow>
                             exchangeAndExtract w c r domain recordTypeUpper queryType
                               finalServer))))"

subsection \<open>A mock world\<close>

text \<open>
  A world in the manner of the test suite's mock server: the resolver configuration and
  the answer to every question are given; the Unicode tables are never consulted on ASCII
  text; an address prints as the dotted decimals of its last four bytes.
\<close>

definition dotted :: "IP \<Rightarrow> string" where
  "dotted ip = Join (map decimal (drop (length ip - 4) ip)) ''.''"

definition mockWorld :: "(go_error + string list) \<Rightarrow> exchange \<Rightarrow> world" where
  "mockWorld config x =
     \<lparr>unicodeUpper = (\<lambda>s. s), unicodeLower = (\<lambda>s. s), IP_String = dotted,
      Fqdn = (\<lambda>s. s @ ''.''), GOOS = ''linux'', ClientConfigFromFile = (\<lambda>path. config),
      Exchange = (\<lambda>t q. x)\<rparr>"

definition noConfig :: "go_error + string list" where
  "noConfig = Inl (GoError ''open /etc/resolv.conf: no such file or directory'')"

definition answers :: "int \<Rightarrow> RR list \<Rightarrow> exchange" where
  "answers rcode rrs =
     \<lparr>response = Some \<lparr>Rcode = rcode, Answer = rrs\<rparr>, exchangeErr = None, elapsed = 1000\<rparr>"

text \<open>A world whose network fails: the exchange returns an error and no response.\<close>

definition timesOut :: exchange where
  "timesOut =
     \<lparr>response = None,
      exchangeErr = Some (GoError ''read udp 192.0.2.7:40000->1.1.1.1:53: i/o timeout''),
      elapsed = 5000000000\<rparr>"

section \<open>Notions of the specification\<close>

subsection \<open>Results, responses and network errors\<close>

text \<open>The result as \<open>Query\<close> first builds it.\<close>

definition initialResult :: "string \<Rightarrow> string \<Rightarrow> string \<Rightarrow> Result" where
  "initialResult domain recordType server =
     \<lparr>Domain = domain, RecordType = recordType, Records = [], Server = server,
      QueryTime = 0, Error = None\<rparr>"

text \<open>The phrase that the specification attaches to each response code.\<close>

definition rcodePhrase :: "int \<Rightarrow> string" where
  "rcodePhrase rcode =
     (if rcode = RcodeNameError then ''not found (NXDOMAIN)''
      else if rcode = RcodeServerFailure then ''internal failure''
      else if rcode = RcodeRefused then ''refused the query''
      else if rcode = RcodeNotImplemented then ''does not support this query type''
      else if rcode = RcodeFormatError then ''query format error''
      else ''failed with response code '' @ fmt_d rcode)"

text \<open>
  What the specification says of extraction: an answer is taken when its type is the one
  requested, and its value is the address, the preference and the exchange, the target,
  or the segments joined by single spaces.
\<close>

definition matchesType :: "string \<Rightarrow> RR \<Rightarrow> bool" where
  "matchesType requested answer =
     (case answer of
        dns_A a \<Rightarrow> requested = ''A''
      | dns_AAAA a \<Rightarrow> requested = ''AAAA''
      | dns_MX preference mx \<Rightarrow> requested = ''MX''
      | dns_CNAME target \<Rightarrow> requested = ''CNAME''
      | dns_TXT txt \<Rightarrow> requested = ''TXT''
      | dns_Other code \<Rightarrow> False)"

definition recordValue :: "world \<Rightarrow> RR \<Rightarrow> string" where
  "recordValue w answer =
     (case answer of
        dns_A a \<Rightarrow> IP_String w a
      | dns_AAAA a \<Rightarrow> IP_String w a
      | dns_MX preference mx \<Rightarrow> decimal (unat preference) @ '' '' @ mx
      | dns_CNAME target \<Rightarrow> target
      | dns_TXT txt \<Rightarrow> Join txt '' ''
      | dns_Other code \<Rightarrow> [])"

text \<open>
  The table of the specification: which message a network error gets, by the patterns
  that occur in its text; \<open>has\<close> tells whether a pattern occurs.
\<close>

definition networkMessage :: "(string \<Rightarrow> bool) \<Rightarrow> string" where
  "networkMessage has =
     (if has ''timeout'' \<or> has ''deadline exceeded'' then
        ''DNS server timeout - server may be unreachable or overloaded''
      else if has ''connection refused'' then
        ''DNS server refused connection - server may be down or not accepting queries''
      else if has ''no such host'' then ''DNS server hostname could not be resolved''
      else if has ''network unreachable'' then
        ''Network unreachable - check your internet connection''
      else if has ''permission denied'' then
        ''Permission denied - may need elevated privileges''
      else ''Network error occurred while contacting DNS server'')"

text \<open>
  A normalized server address, as the test suite checks it: \<open>net.SplitHostPort\<close> splits
  it into a host that \<open>net.ParseIP\<close> accepts and a port that \<open>ValidateDNSPort\<close> accepts.
\<close>

definition isHostPort :: "string \<Rightarrow> bool" where
  "isHostPort s =
     (case SplitHostPort s of
        Inl e \<Rightarrow> False
      | Inr (host, port) \<Rightarrow> ParseIP host \<noteq> None \<and> ValidateDNSPort port = None)"

text \<open>
  The first server of the resolver configuration that \<open>getSystemDNS\<close> reads on this
  system, when there is one.
\<close>

definition systemResolver :: "world \<Rightarrow> string option" where
  "systemResolver w =
     (case ClientConfigFromFile w (if GOOS w = ''windows'' then [] else ''/etc/resolv.conf'') of
        Inl e \<Rightarrow> None
      | Inr servers \<Rightarrow> (case servers of [] \<Rightarrow> None | a # rest \<Rightarrow> Some a))"

subsection \<open>Domain names\<close>

text \<open>
  The rules as the specification states them, in its order: non-empty; at most 253 long;
  only letters, digits, hyphens, underscores and dots; no two dots in a row; no dot or
  hyphen at either end; no label empty or longer than 63; no label with a hyphen at
  either end; no label ending in an underscore; the last label not all numeric.
\<close>

definition domainRules :: "string \<Rightarrow> bool list" where
  "domainRules d =
     [d \<noteq> [],
      length d \<le> 253,
      list_all validChar d,
      \<not> Contains d ''..'',
      \<not> (HasPrefix d ''.'' \<or> HasSuffix d ''.'' \<or> HasPrefix d ''-'' \<or> HasSuffix d ''-''),
      list_all (\<lambda>l. l \<noteq> [] \<and> length l \<le> 63) (Split d CHR ''.''),
      list_all (\<lambda>l. \<not> HasPrefix l ''-'' \<and> \<not> HasSuffix l ''-'') (Split d CHR ''.''),
      list_all (\<lambda>l. \<not> HasSuffix l ''_'') (Split d CHR ''.''),
      \<not> allNumeric (last (Split d CHR ''.''))]"

text \<open>The number, from 1, of the first rule of that list that a domain breaks.\<close>

definition firstViolatedRule :: "string \<Rightarrow> nat option" where
  "firstViolatedRule d =
     (if list_all (\<lambda>b. b) (domainRules d) then None
      else Some (Suc (length (takeWhile (\<lambda>b. b) (domainRules d)))))"

text \<open>The rule of that list which an error of \<open>ValidateDomain\<close> reports, by its message.\<close>

definition reportedRule :: "DigError \<Rightarrow> nat" where
  "reportedRule e =
     (if Message e = ''domain name cannot be empty'' then 1
      else if HasPrefix (Message e) ''domain name too long'' then 2
      else if HasPrefix (Message e) ''domain contains invalid character'' then 3
      else if Message e = ''domain cannot contain consecutive dots'' then 4
      else if Message e = ''domain cannot start or end with a dot''
              \<or> Message e = ''domain cannot start or end with a hyphen'' then 5
      else if Message e = ''domain cannot have empty labels''
              \<or> HasSuffix (Message e) ''characters, max 63)'' then 6
      else if HasSuffix (Message e) ''cannot start or end with hyphen'' then 7
      else if Message e = ''domain cannot end with an underscore''
              \<or> HasSuffix (Message e) ''cannot end with underscore'' then 8
      else if Message e = ''top-level domain cannot be all numeric'' then 9
      else 0)"

text \<open>
  The violations in the order in which \<open>ValidateDomain\<close> meets them: those of the whole
  domain first, then those of the first label that breaks a rule of its own, then the
  numeric last label.
\<close>

datatype violation =
    IsEmpty
  | TooLong nat
  | InvalidChar string nat
  | ConsecutiveDots
  | DotAtEnd
  | HyphenAtEnd
  | UnderscoreAtEnd
  | LabelTooLong string
  | LabelHyphen string
  | LabelUnderscore string
  | NumericTLD

definition badLabel :: "string \<Rightarrow> bool" where
  "badLabel l = (length l > 63 \<or> HasPrefix l ''-'' \<or> HasSuffix l ''-'' \<or> HasSuffix l ''_'')"

definition labelViolation :: "string \<Rightarrow> violation" where
  "labelViolation l =
     (if length l > 63 then LabelTooLong l
      else if HasPrefix l ''-'' \<or> HasSuffix l ''-'' then LabelHyphen l
      else LabelUnderscore l)"

definition firstViolation :: "string \<Rightarrow> violation option" where
  "firstViolation d =
     (if d = [] then Some IsEmpty
      else if length d > 253 then Some (TooLong (length d))
      else if \<not> list_all validChar d then
        Some (InvalidChar (fmt_c (dropWhile validChar d))
                (Suc (length (takeWhile validChar d))))
      else if Contains d ''..'' then Some ConsecutiveDots
      else if HasPrefix d ''.'' \<or> HasSuffix d ''.'' then Some DotAtEnd
      else if HasPrefix d ''-'' \<or> HasSuffix d ''-'' then Some HyphenAtEnd
      else if HasSuffix d ''_'' then Some UnderscoreAtEnd
      else
        (case find badLabel (Split d CHR ''.'') of
           Some l \<Rightarrow> Some (labelViolation l)
         | None \<Rightarrow> if allNumeric (last (Split d CHR ''.'')) then Some NumericTLD else None))"

definition violationError :: "violation \<Rightarrow> DigError" where
  "violationError v =
     NewInputError
       (case v of
          IsEmpty \<Rightarrow> ''domain name cannot be empty''
        | TooLong n \<Rightarrow> ''domain name too long ('' @ decimal n @ '' characters, max 253)''
        | InvalidChar r pos \<Rightarrow>
            ''domain contains invalid character '' @ [CHR 0x27] @ r @ [CHR 0x27]
              @ '' at position '' @ decimal pos
        | ConsecutiveDots \<Rightarrow> ''domain cannot contain consecutive dots''
        | DotAtEnd \<Rightarrow> ''domain cannot start or end with a dot''
        | HyphenAtEnd \<Rightarrow> ''domain cannot start or end with a hyphen''
        | UnderscoreAtEnd \<Rightarrow> ''domain cannot end with an underscore''
        | LabelTooLong l \<Rightarrow>
            ''domain label '' @ [CHR 0x27] @ l @ [CHR 0x27] @ '' too long (''
              @ decimal (length l) @ '' characters, max 63)''
        | LabelHyphen l \<Rightarrow>
            ''domain label '' @ [CHR 0x27] @ l @ [CHR 0x27] @ '' cannot start or end with hyphen''
        | LabelUnderscore l \<Rightarrow>
            ''domain label '' @ [CHR 0x27] @ l @ [CHR 0x27] @ '' cannot end with underscore''
        | NumericTLD \<Rightarrow> ''top-level domain cannot be all numeric'')
       None"

section \<open>Properties\<close>

subsection \<open>Record types\<close>

lemma validTypes_true_iff:
  "(case validTypes s of Some b \<Rightarrow> b | None \<Rightarrow> False)
     \<longleftrightarrow> s = ''A'' \<or> s = ''AAAA'' \<or> s = ''MX'' \<or> s = ''CNAME'' \<or> s = ''TXT''"
  unfolding validTypes_def by (simp del: One_nat_def; blast)

lemma ValidateRecordType_None_iff:
  "ValidateRecordType upper t = None \<longleftrightarrow>
     t \<noteq> [] \<and> ToUpper upper t \<in> {''A'', ''AAAA'', ''MX'', ''CNAME'', ''TXT''}"
  unfolding ValidateRecordType_def Let_def validTypes_true_iff by auto

lemma queryTypeOf_None_iff:
  "queryTypeOf u = None \<longleftrightarrow> u \<notin> {''A'', ''AAAA'', ''MX'', ''CNAME'', ''TXT''}"
  unfolding queryTypeOf_def by simp

subsection \<open>The result and its error\<close>

lemma ClassifyNetworkError_Some: "ClassifyNetworkError lower (Some e) server \<noteq> None"
  unfolding ClassifyNetworkError_def Let_def by simp

lemma failWith_sel [simp]:
  "err (failWith r e qs) = e"
  "Error (result (failWith r e qs)) = e"
  "Records (result (failWith r e qs)) = Records r"
  "Result.Server (result (failWith r e qs)) = Result.Server r"
  "sent (failWith r e qs) = qs"
  unfolding failWith_def by simp_all

lemma exchangeAndExtract_error_iff:
  assumes "Records r = []" and "Error r = None"
  shows "(Error (result (exchangeAndExtract w c r d u q fs)) = None)
           = (Records (result (exchangeAndExtract w c r d u q fs)) \<noteq> [])
         \<and> err (exchangeAndExtract w c r d u q fs)
           = Error (result (exchangeAndExtract w c r d u q fs))"
  using assms unfolding exchangeAndExtract_def Let_def
  by (cases "exchangeErr (Exchange w (timeout c)
        \<lparr>qname = Fqdn w d, qtype = q, recursionDesired = True, qserver = fs\<rparr>)")
     (auto simp: ClassifyNetworkError_Some split: option.splits)

text \<open>
  Claim C1. Whatever the inputs and whatever the world does (validation failure, network
  failure, DNS failure or success), the result of \<open>Query\<close> has a \<open>nil\<close> error exactly
  when its records are not empty, and the error returned beside the result is the error
  stored in it.
\<close>

theorem Query_error_iff_no_records:
  "(Error (result (Query w c domain recordType server)) = None)
     = (Records (result (Query w c domain recordType server)) \<noteq> [])
   \<and> err (Query w c domain recordType server)
     = Error (result (Query w c domain recordType server))"
  unfolding Query_def Let_def
  by (simp add: exchangeAndExtract_error_iff split: option.splits sum.splits)

theorem Query_error_iff_no_records_witness:
  "Records (result (Query (mockWorld noConfig (answers 0 [dns_A [192, 0, 2, 1]])) NewClient
      ''example.com'' ''A'' ''8.8.8.8'')) = [''192.0.2.1'']
   \<and> err (Query (mockWorld noConfig (answers 0 [dns_A [192, 0, 2, 1]])) NewClient
      ''example.com'' ''A'' ''8.8.8.8'') = None"
proof -
  have h: "Records (result (Query (mockWorld noConfig (answers 0 [dns_A [192, 0, 2, 1]]))
      NewClient ''example.com'' ''A'' ''8.8.8.8'')) = [''192.0.2.1'']"
    by code_simp
  show ?thesis
    using h Query_error_iff_no_records [of "mockWorld noConfig (answers 0 [dns_A [192, 0, 2, 1]])"
      NewClient "''example.com''" "''A''" "''8.8.8.8''"]
    by simp
qed

subsection \<open>Substrings\<close>

lemma HasPrefix_iff: "HasPrefix s p \<longleftrightarrow> (\<exists>v. s = p @ v)"
  unfolding HasPrefix_def
  by (metis append_eq_conv_conj append_take_drop_id length_append le_add1)

lemma Contains_iff: "Contains s p \<longleftrightarrow> (\<exists>u v. s = u @ p @ v)"
proof (induction s)
  case Nil
  then show ?case by simp
next
  case (Cons c cs)
  show ?case
  proof
    assume "Contains (c # cs) p"
    then consider "HasPrefix (c # cs) p" | "Contains cs p" by auto
    then show "\<exists>u v. c # cs = u @ p @ v"
    proof cases
      case 1
      then obtain v where "c # cs = p @ v" by (auto simp: HasPrefix_iff)
      then have "c # cs = [] @ p @ v" by simp
      then show ?thesis by blast
    next
      case 2
      then obtain u v where "cs = u @ p @ v" using Cons.IH by blast
      then have "c # cs = (c # u) @ p @ v" by simp
      then show ?thesis by blast
    qed
  next
    assume "\<exists>u v. c # cs = u @ p @ v"
    then obtain u v where uv: "c # cs = u @ p @ v" by blast
    show "Contains (c # cs) p"
    proof (cases u)
      case Nil
      with uv have "HasPrefix (c # cs) p" by (auto simp: HasPrefix_iff)
      then show ?thesis by simp
    next
      case (Cons a u')
      with uv have "cs = u' @ p @ v" by simp
      then have "Contains cs p" using Cons.IH by blast
      then show ?thesis by simp
    qed
  qed
qed

lemma Contains_middle: "Contains (u @ p @ v) p"
  unfolding Contains_iff by blast

subsection \<open>After the exchange\<close>

lemma exchangeAndExtract_sent:
  "sent (exchangeAndExtract w c r d u qt fs)
     = [\<lparr>qname = Fqdn w d, qtype = qt, recursionDesired = True, qserver = fs\<rparr>]"
  unfolding exchangeAndExtract_def Let_def by (simp split: option.splits)

text \<open>
  \<open>Query\<close> sends a question only after both validations and the preparation of the
  server have passed; the question is addressed to the prepared server.
\<close>

lemma Query_sent_cases:
  assumes "sent (Query w c d t s) = [q]"
  obtains fs qt where
    "ValidateDomain d = None"
    "ValidateRecordType (unicodeUpper w) t = None"
    "prepareServer w s = Inr fs"
    "queryTypeOf (ToUpper (unicodeUpper w) t) = Some qt"
    "q = \<lparr>qname = Fqdn w d, qtype = qt, recursionDesired = True, qserver = fs\<rparr>"
    "Query w c d t s =
       exchangeAndExtract w c ((initialResult d t s)\<lparr>Result.Server := fs\<rparr>) d
         (ToUpper (unicodeUpper w) t) qt fs"
  using assms unfolding Query_def Let_def initialResult_def
  by (auto simp: exchangeAndExtract_sent split: option.splits sum.splits)

lemma rcodeError_phrase:
  "Contains (Message (rcodeError rcode domain finalServer)) (rcodePhrase rcode)"
proof -
  have 1: "Contains (''domain '' @ [CHR 0x27] @ domain @ [CHR 0x27] @ '' not found (NXDOMAIN)'')
             ''not found (NXDOMAIN)''"
    using Contains_middle [of "''domain '' @ [CHR 0x27] @ domain @ [CHR 0x27] @ '' ''"
      "''not found (NXDOMAIN)''" "[]"] by simp
  have 2: "Contains ''DNS server experienced an internal failure'' ''internal failure''"
    using Contains_middle [of "''DNS server experienced an ''" "''internal failure''" "[]"]
    by simp
  have 3: "Contains ''DNS server refused the query'' ''refused the query''"
    using Contains_middle [of "''DNS server ''" "''refused the query''" "[]"] by simp
  have 4: "Contains ''DNS server does not support this query type''
             ''does not support this query type''"
    using Contains_middle [of "''DNS server ''" "''does not support this query type''" "[]"]
    by simp
  have 5: "Contains ''DNS query format error'' ''query format error''"
    using Contains_middle [of "''DNS ''" "''query format error''" "[]"] by simp
  have 6: "Contains (''DNS query failed with response code '' @ fmt_d rcode)
             (''failed with response code '' @ fmt_d rcode)"
    using Contains_middle [of "''DNS query ''" "''failed with response code '' @ fmt_d rcode" "[]"]
    by simp
  show ?thesis
    unfolding rcodeError_def rcodePhrase_def NewDNSError_def
    using 1 2 3 4 5 6 by simp
qed

text \<open>
  Claim C6. When the exchange returns a response whose code is not success, \<open>Query\<close>
  returns a DNS-kind error that carries the domain and the server addressed, with the
  message of the code: name error, server failure, refused, not implemented and format
  error have their own messages, every other code the message with its number; each
  message contains the phrase the specification gives for it.
\<close>

theorem failure_rcode_gives_DNS_error:
  assumes "sent (Query w c domain recordType server) = [q]"
      and "exchangeErr (Exchange w (timeout c) q) = None"
      and "response (Exchange w (timeout c) q) = Some resp"
      and "Rcode resp \<noteq> RcodeSuccess"
  shows "\<exists>e. err (Query w c domain recordType server) = Some e
      \<and> Type e = ErrorTypeDNS \<and> Cause e = None
      \<and> DigError.Domain e = domain \<and> DigError.Server e = qserver q
      \<and> Message e =
         (if Rcode resp = RcodeNameError then
            ''domain '' @ [CHR 0x27] @ domain @ [CHR 0x27] @ '' not found (NXDOMAIN)''
          else if Rcode resp = RcodeServerFailure then
            ''DNS server experienced an internal failure''
          else if Rcode resp = RcodeRefused then ''DNS server refused the query''
          else if Rcode resp = RcodeNotImplemented then
            ''DNS server does not support this query type''
          else if Rcode resp = RcodeFormatError then ''DNS query format error''
          else ''DNS query failed with response code '' @ fmt_d (Rcode resp))
      \<and> Contains (Message e) (rcodePhrase (Rcode resp))"
proof -
  from assms(1) obtain fs qt where
    q: "q = \<lparr>qname = Fqdn w domain, qtype = qt, recursionDesired = True, qserver = fs\<rparr>"
    and Q: "Query w c domain recordType server =
      exchangeAndExtract w c ((initialResult domain recordType server)\<lparr>Result.Server := fs\<rparr>)
        domain (ToUpper (unicodeUpper w) recordType) qt fs"
    by (rule Query_sent_cases)
  have e: "err (Query w c domain recordType server) = Some (rcodeError (Rcode resp) domain fs)"
    using assms(2-4) unfolding Q q exchangeAndExtract_def Let_def by simp
  have m: "Contains (Message (rcodeError (Rcode resp) domain fs)) (rcodePhrase (Rcode resp))"
    by (rule rcodeError_phrase)
  have f: "Type (rcodeError (Rcode resp) domain fs) = ErrorTypeDNS"
    "Cause (rcodeError (Rcode resp) domain fs) = None"
    "DigError.Domain (rcodeError (Rcode resp) domain fs) = domain"
    "DigError.Server (rcodeError (Rcode resp) domain fs) = fs"
    by (simp_all add: rcodeError_def NewDNSError_def)
  show ?thesis
    unfolding e using m f by (simp add: q) (simp add: rcodeError_def NewDNSError_def)
qed

theorem failure_rcode_gives_DNS_error_witness:
  "sent (Query (mockWorld noConfig (answers 3 [])) NewClient ''nosuch.example'' ''a'' ''8.8.8.8'')
     = [\<lparr>qname = ''nosuch.example.'', qtype = 1, recursionDesired = True,
          qserver = ''8.8.8.8:53''\<rparr>]
   \<and> map_option Message
       (err (Query (mockWorld noConfig (answers 3 [])) NewClient ''nosuch.example'' ''a''
          ''8.8.8.8''))
     = Some ''domain 'nosuch.example' not found (NXDOMAIN)''"
proof -
  let ?w = "mockWorld noConfig (answers 3 [])"
  let ?q = "\<lparr>qname = ''nosuch.example.'', qtype = 1, recursionDesired = True,
    qserver = ''8.8.8.8:53''\<rparr>"
  have 1: "sent (Query ?w NewClient ''nosuch.example'' ''a'' ''8.8.8.8'') = [?q]"
    by code_simp
  have 2: "exchangeErr (Exchange ?w (timeout NewClient) ?q) = None"
    by (simp add: mockWorld_def answers_def)
  have 3: "response (Exchange ?w (timeout NewClient) ?q) = Some \<lparr>Rcode = 3, Answer = []\<rparr>"
    by (simp add: mockWorld_def answers_def)
  have 4: "Rcode \<lparr>Rcode = 3, Answer = []\<rparr> \<noteq> RcodeSuccess"
    by (simp add: RcodeSuccess_def)
  from failure_rcode_gives_DNS_error [OF 1 2 3 4] 1 show ?thesis
    by (auto simp: RcodeNameError_def)
qed

lemma extractAnswer_eq:
  "extractAnswer w u a records
     = records @ (if matchesType u a then [recordValue w a] else [])"
  unfolding extractAnswer_def matchesType_def recordValue_def
  by (cases a) auto

lemma extractRecords_eq:
  "extractRecords w u as records
     = records @ map (recordValue w) (filter (matchesType u) as)"
  by (induction as arbitrary: records) (simp_all add: extractAnswer_eq)

text \<open>
  Claim C7. After a response with the success code, the records of the result are the
  values of the answers whose type is the requested one, one entry for each such answer
  and none for the others, in the order of the answer section.
\<close>

theorem records_are_matching_answers_in_order:
  assumes "sent (Query w c domain recordType server) = [q]"
      and "exchangeErr (Exchange w (timeout c) q) = None"
      and "response (Exchange w (timeout c) q) = Some resp"
      and "Rcode resp = RcodeSuccess"
  shows "Records (result (Query w c domain recordType server)) =
      map (recordValue w)
        (filter (matchesType (ToUpper (unicodeUpper w) recordType)) (Answer resp))"
proof -
  from assms(1) obtain fs qt where
    q: "q = \<lparr>qname = Fqdn w domain, qtype = qt, recursionDesired = True, qserver = fs\<rparr>"
    and Q: "Query w c domain recordType server =
      exchangeAndExtract w c ((initialResult domain recordType server)\<lparr>Result.Server := fs\<rparr>)
        domain (ToUpper (unicodeUpper w) recordType) qt fs"
    by (rule Query_sent_cases)
  show ?thesis
    using assms(2-4) unfolding Q q exchangeAndExtract_def Let_def
    by (simp add: extractRecords_eq initialResult_def)
qed

theorem records_are_matching_answers_in_order_witness:
  "Records (result (Query
      (mockWorld noConfig (answers 0
         [dns_CNAME ''x.example.'', dns_TXT [''part1'', ''part2''], dns_MX 10 ''mail.example.'',
          dns_TXT [''v=spf1'']]))
      NewClient ''example.com'' ''txt'' ''8.8.8.8''))
     = [''part1 part2'', ''v=spf1'']"
proof -
  let ?rrs = "[dns_CNAME ''x.example.'', dns_TXT [''part1'', ''part2''],
    dns_MX 10 ''mail.example.'', dns_TXT [''v=spf1'']]"
  let ?w = "mockWorld noConfig (answers 0 ?rrs)"
  let ?q = "\<lparr>qname = ''example.com.'', qtype = 16, recursionDesired = True,
    qserver = ''8.8.8.8:53''\<rparr>"
  have 1: "sent (Query ?w NewClient ''example.com'' ''txt'' ''8.8.8.8'') = [?q]"
    by code_simp
  have 2: "exchangeErr (Exchange ?w (timeout NewClient) ?q) = None"
    by (simp add: mockWorld_def answers_def)
  have 3: "response (Exchange ?w (timeout NewClient) ?q) = Some \<lparr>Rcode = 0, Answer = ?rrs\<rparr>"
    by (simp add: mockWorld_def answers_def)
  have 4: "Rcode \<lparr>Rcode = 0, Answer = ?rrs\<rparr> = RcodeSuccess"
    by (simp add: RcodeSuccess_def)
  have 5: "ToUpper (unicodeUpper ?w) ''txt'' = ''TXT''"
    by code_simp
  show ?thesis
    unfolding records_are_matching_answers_in_order [OF 1 2 3 4] 5
    by (simp add: matchesType_def recordValue_def)
qed

text \<open>
  Claim C5. When the exchange returns a response with the success code and extraction
  yields no entry, \<open>Query\<close> returns a DNS-kind error whose message is ``no TYPE records
  found for domain DOMAIN'', the type in upper case and the domain between single quotes,
  carrying the domain and the server addressed; the records of the result are empty.
\<close>

theorem no_records_is_DNS_error:
  assumes "sent (Query w c domain recordType server) = [q]"
      and "exchangeErr (Exchange w (timeout c) q) = None"
      and "response (Exchange w (timeout c) q) = Some resp"
      and "Rcode resp = RcodeSuccess"
      and "extractRecords w (ToUpper (unicodeUpper w) recordType) (Answer resp) [] = []"
  shows "err (Query w c domain recordType server) =
           Some \<lparr>Type = ErrorTypeDNS,
                 Message = ''no '' @ ToUpper (unicodeUpper w) recordType
                    @ '' records found for domain '' @ [CHR 0x27] @ domain @ [CHR 0x27],
                 Cause = None, Domain = domain, Server = qserver q\<rparr>
         \<and> Records (result (Query w c domain recordType server)) = []"
proof -
  from assms(1) obtain fs qt where
    q: "q = \<lparr>qname = Fqdn w domain, qtype = qt, recursionDesired = True, qserver = fs\<rparr>"
    and Q: "Query w c domain recordType server =
      exchangeAndExtract w c ((initialResult domain recordType server)\<lparr>Result.Server := fs\<rparr>)
        domain (ToUpper (unicodeUpper w) recordType) qt fs"
    by (rule Query_sent_cases)
  show ?thesis
    using assms(2-5) unfolding Q q exchangeAndExtract_def Let_def
    by (simp add: initialResult_def NewDNSError_def)
qed

theorem no_records_is_DNS_error_witness:
  "sent (Query (mockWorld noConfig (answers 0 [dns_CNAME ''x.example.''])) NewClient
      ''example.com'' ''mx'' ''8.8.8.8'')
     = [\<lparr>qname = ''example.com.'', qtype = 15, recursionDesired = True,
          qserver = ''8.8.8.8:53''\<rparr>]
   \<and> err (Query (mockWorld noConfig (answers 0 [dns_CNAME ''x.example.''])) NewClient
      ''example.com'' ''mx'' ''8.8.8.8'')
     = Some \<lparr>Type = ErrorTypeDNS,
             Message = ''no MX records found for domain 'example.com'' @ [CHR 0x27],
             Cause = None, Domain = ''example.com'', Server = ''8.8.8.8:53''\<rparr>"
proof -
  let ?rrs = "[dns_CNAME ''x.example.'']"
  let ?w = "mockWorld noConfig (answers 0 ?rrs)"
  let ?q = "\<lparr>qname = ''example.com.'', qtype = 15, recursionDesired = True,
    qserver = ''8.8.8.8:53''\<rparr>"
  have 1: "sent (Query ?w NewClient ''example.com'' ''mx'' ''8.8.8.8'') = [?q]"
    by code_simp
  have 2: "exchangeErr (Exchange ?w (timeout NewClient) ?q) = None"
    by (simp add: mockWorld_def answers_def)
  have 3: "response (Exchange ?w (timeout NewClient) ?q) = Some \<lparr>Rcode = 0, Answer = ?rrs\<rparr>"
    by (simp add: mockWorld_def answers_def)
  have 4: "Rcode \<lparr>Rcode = 0, Answer = ?rrs\<rparr> = RcodeSuccess"
    by (simp add: RcodeSuccess_def)
  have 5: "ToUpper (unicodeUpper ?w) ''mx'' = ''MX''"
    by code_simp
  have 6: "extractRecords ?w (ToUpper (unicodeUpper ?w) ''mx'')
      (Answer \<lparr>Rcode = 0, Answer = ?rrs\<rparr>) [] = []"
    unfolding 5 by (simp add: extractAnswer_def)
  have 7: "err (Query ?w NewClient ''example.com'' ''mx'' ''8.8.8.8'')
     = Some \<lparr>Type = ErrorTypeDNS,
             Message = ''no '' @ ''MX'' @ '' records found for domain '' @ [CHR 0x27]
                @ ''example.com'' @ [CHR 0x27],
             Cause = None, Domain = ''example.com'', Server = qserver ?q\<rparr>"
    using no_records_is_DNS_error [OF 1 2 3 4 6] unfolding 5 by (rule conjunct1)
  show ?thesis
    unfolding 1 7 by simp
qed

subsection \<open>Preparing the server\<close>

lemma replicate_numeral: "replicate (numeral k) x = x # replicate (pred_numeral k) x"
  by (simp add: numeral_eq_Suc)

lemmas net_eval = replicate_numeral
  SplitHostPort_def LastIndexByte_def splitTail_def ParseIP_def parseIPv4_def parseIPv6_def
  isDigit_def digitVal_def isHexDigit_def hexVal_def hexDigits_def afterHex_def hexAcc_def
  v6finish_def v6loop.simps HasPrefix_def HasSuffix_def
  ValidateDNSServer_def ValidateDNSPort_def IsLoopback_def To4_def Equal_def IPv4_def
  IPv6loopback_def v4InV6Prefix_def

lemma prepare_ipv4: "prepareServer w ''8.8.8.8'' = Inr ''8.8.8.8:53''"
  by (simp add: prepareServer_def net_eval)

lemma prepare_ipv4_port: "prepareServer w ''1.1.1.1:53'' = Inr ''1.1.1.1:53''"
  by (simp add: prepareServer_def splitAndValidate_def net_eval)

lemma prepare_ipv6: "prepareServer w ''::1'' = Inr ''[::1]:53''"
  by (simp add: prepareServer_def net_eval)

lemma prepare_ipv6_port: "prepareServer w ''[2001:db8::1]:53'' = Inr ''[2001:db8::1]:53''"
  by (simp add: prepareServer_def splitAndValidate_def net_eval)

lemma getSystemDNS_nonempty: "getSystemDNS w = Inr systemDNS \<Longrightarrow> systemDNS \<noteq> []"
  unfolding getSystemDNS_def getWindowsDNS_def getUnixDNS_def
  by (auto split: if_splits sum.splits)

lemma prepare_empty:
  "prepareServer w [] =
     Inr (case getSystemDNS w of Inr systemDNS \<Rightarrow> systemDNS | Inl e \<Rightarrow> ''8.8.8.8:53'')"
  unfolding prepareServer_def by (simp split: sum.splits)

lemma exchangeAndExtract_Server:
  "Result.Server (result (exchangeAndExtract w c r d u qt fs)) = Result.Server r"
  unfolding exchangeAndExtract_def Let_def by (simp split: option.splits)

text \<open>Once the server is prepared, it is the server of the result and of the question.\<close>

lemma Query_prepared:
  assumes "ValidateDomain d = None"
      and "ValidateRecordType (unicodeUpper w) t = None"
      and "prepareServer w s = Inr fs"
  shows "Result.Server (result (Query w c d t s)) = fs
       \<and> (\<exists>qt. sent (Query w c d t s)
             = [\<lparr>qname = Fqdn w d, qtype = qt, recursionDesired = True, qserver = fs\<rparr>])"
proof -
  from assms(2) have "queryTypeOf (ToUpper (unicodeUpper w) t) \<noteq> None"
    by (simp add: ValidateRecordType_None_iff queryTypeOf_None_iff)
  then obtain qt where "queryTypeOf (ToUpper (unicodeUpper w) t) = Some qt"
    by blast
  with assms show ?thesis
    unfolding Query_def Let_def
    by (simp add: exchangeAndExtract_Server exchangeAndExtract_sent)
qed

text \<open>Before that, the result still holds the server as it was passed, and nothing is sent.\<close>

lemma Query_unprepared:
  assumes "ValidateDomain d \<noteq> None \<or> ValidateRecordType (unicodeUpper w) t \<noteq> None
           \<or> (\<exists>e. prepareServer w s = Inl e)"
  shows "Result.Server (result (Query w c d t s)) = s \<and> sent (Query w c d t s) = []
       \<and> Records (result (Query w c d t s)) = []"
  using assms unfolding Query_def Let_def
  by (auto split: option.splits sum.splits)

lemma exchangeAndExtract_not_Input:
  "err (exchangeAndExtract w c r d u qt fs) = Some e \<Longrightarrow> Type e \<noteq> ErrorTypeInput"
  unfolding exchangeAndExtract_def Let_def ClassifyNetworkError_def
  by (auto simp: failWith_def NewNetworkError_def NewDNSError_def rcodeError_def
      split: option.splits if_splits)

text \<open>
  Claim C9. A record type that \<open>ValidateRecordType\<close> accepts never takes the default
  branch of the switch that selects the query type in \<open>Query\<close>: the switch, applied to
  the upper-cased record type, yields one of the five query types. Hence \<open>Query\<close>, once
  the domain is valid and the server prepared, goes on to the exchange, and the error for
  an unsupported record type is not what it returns.
\<close>

theorem validated_type_never_default:
  assumes "ValidateRecordType (unicodeUpper w) recordType = None"
  shows "queryTypeOf (ToUpper (unicodeUpper w) recordType) \<noteq> None
       \<and> (ValidateDomain domain = None \<and> prepareServer w server = Inr finalServer
            \<longrightarrow> sent (Query w c domain recordType server) \<noteq> []
              \<and> err (Query w c domain recordType server)
                  \<noteq> Some (NewInputError
                       (''record type '' @ [CHR 0x27] @ recordType @ [CHR 0x27]
                          @ '' not supported'') None))"
proof -
  from assms have q: "queryTypeOf (ToUpper (unicodeUpper w) recordType) \<noteq> None"
    by (simp add: ValidateRecordType_None_iff queryTypeOf_None_iff)
  have "sent (Query w c domain recordType server) \<noteq> []
      \<and> err (Query w c domain recordType server)
          \<noteq> Some (NewInputError
               (''record type '' @ [CHR 0x27] @ recordType @ [CHR 0x27] @ '' not supported'')
               None)"
    if d: "ValidateDomain domain = None" and p: "prepareServer w server = Inr finalServer"
  proof -
    from Query_prepared [OF d assms p, of c] obtain qt where
      "sent (Query w c domain recordType server)
         = [\<lparr>qname = Fqdn w domain, qtype = qt, recursionDesired = True,
              qserver = finalServer\<rparr>]"
      by blast
    then have s: "sent (Query w c domain recordType server)
        = [\<lparr>qname = Fqdn w domain, qtype = qt, recursionDesired = True,
             qserver = finalServer\<rparr>]" .
    from Query_sent_cases [OF s] obtain fs qt' where
      "Query w c domain recordType server =
         exchangeAndExtract w c ((initialResult domain recordType server)\<lparr>Result.Server := fs\<rparr>)
           domain (ToUpper (unicodeUpper w) recordType) qt' fs"
      by blast
    then have "err (Query w c domain recordType server) = Some e \<Longrightarrow> Type e \<noteq> ErrorTypeInput"
      for e
      by (simp add: exchangeAndExtract_not_Input)
    then have "err (Query w c domain recordType server)
        \<noteq> Some (NewInputError
             (''record type '' @ [CHR 0x27] @ recordType @ [CHR 0x27] @ '' not supported'')
             None)"
      by (auto simp: NewInputError_def)
    with s show ?thesis
      by simp
  qed
  with q show ?thesis
    by blast
qed

theorem validated_type_never_default_witness:
  "ValidateRecordType (unicodeUpper (mockWorld noConfig timesOut)) ''cname'' = None
   \<and> queryTypeOf (ToUpper (unicodeUpper (mockWorld noConfig timesOut)) ''cname'') \<noteq> None
   \<and> sent (Query (mockWorld noConfig timesOut) NewClient ''example.com'' ''cname'' ''8.8.8.8'')
       \<noteq> []"
proof -
  let ?w = "mockWorld noConfig timesOut"
  have h: "ValidateRecordType (unicodeUpper ?w) ''cname'' = None"
    unfolding mockWorld_def by simp code_simp
  have d: "ValidateDomain ''example.com'' = None"
    by code_simp
  have p: "prepareServer ?w ''8.8.8.8'' = Inr ''8.8.8.8:53''"
    by (rule prepare_ipv4)
  show ?thesis
    using h d p
      validated_type_never_default [OF h, of "''example.com''" "''8.8.8.8''" "''8.8.8.8:53''"
        NewClient]
    by blast
qed

text \<open>
  Claim C4. With a valid domain and record type, the server of the result is
  \<open>8.8.8.8:53\<close> for the input \<open>8.8.8.8\<close>, \<open>[::1]:53\<close> for \<open>::1\<close>, and the input itself
  for \<open>1.1.1.1:53\<close> and \<open>[2001:db8::1]:53\<close>. For the empty input it is the system's
  resolver when one is found and \<open>8.8.8.8:53\<close> otherwise, never the empty string, and
  preparing the server returns no error.
\<close>

theorem server_normalization_examples:
  assumes "ValidateDomain domain = None"
      and "ValidateRecordType (unicodeUpper w) recordType = None"
  shows "Result.Server (result (Query w c domain recordType ''8.8.8.8'')) = ''8.8.8.8:53''
       \<and> Result.Server (result (Query w c domain recordType ''1.1.1.1:53'')) = ''1.1.1.1:53''
       \<and> Result.Server (result (Query w c domain recordType ''::1'')) = ''[::1]:53''
       \<and> Result.Server (result (Query w c domain recordType ''[2001:db8::1]:53''))
           = ''[2001:db8::1]:53''
       \<and> Result.Server (result (Query w c domain recordType []))
           = (case getSystemDNS w of Inr systemDNS \<Rightarrow> systemDNS | Inl e \<Rightarrow> ''8.8.8.8:53'')
       \<and> Result.Server (result (Query w c domain recordType [])) \<noteq> []
       \<and> prepareServer w [] = Inr (Result.Server (result (Query w c domain recordType [])))"
proof -
  note P = Query_prepared [OF assms, THEN conjunct1]
  have e: "Result.Server (result (Query w c domain recordType []))
      = (case getSystemDNS w of Inr systemDNS \<Rightarrow> systemDNS | Inl e \<Rightarrow> ''8.8.8.8:53'')"
    by (rule P [OF prepare_empty])
  have n: "(case getSystemDNS w of Inr systemDNS \<Rightarrow> systemDNS | Inl e \<Rightarrow> ''8.8.8.8:53'') \<noteq> []"
    by (auto split: sum.splits dest: getSystemDNS_nonempty)
  show ?thesis
    using P [OF prepare_ipv4] P [OF prepare_ipv4_port] P [OF prepare_ipv6]
      P [OF prepare_ipv6_port] n
    unfolding e prepare_empty by simp
qed

theorem server_normalization_examples_witness:
  "Result.Server (result (Query (mockWorld (Inr [''192.0.2.53'']) (answers 0 [])) NewClient
      ''example.com'' ''A'' [])) = ''192.0.2.53:53''
   \<and> Result.Server (result (Query (mockWorld noConfig (answers 0 [])) NewClient
      ''example.com'' ''A'' [])) = ''8.8.8.8:53''
   \<and> Result.Server (result (Query (mockWorld noConfig (answers 0 [])) NewClient
      ''example.com'' ''A'' ''::1'')) = ''[::1]:53''"
proof -
  have d: "ValidateDomain ''example.com'' = None"
    by code_simp
  have t: "ValidateRecordType (unicodeUpper (mockWorld config x)) ''A'' = None" for config x
    unfolding mockWorld_def by simp code_simp
  have s: "getSystemDNS (mockWorld (Inr [''192.0.2.53'']) x) = Inr ''192.0.2.53:53''" for x
    by (simp add: getSystemDNS_def getUnixDNS_def mockWorld_def)
  have f: "getSystemDNS (mockWorld noConfig x)
      = Inl (GoError (''could not read resolv.conf: ''
               @ ''open /etc/resolv.conf: no such file or directory''))" for x
    by (simp add: getSystemDNS_def getUnixDNS_def mockWorld_def noConfig_def)
  show ?thesis
    using server_normalization_examples [OF d t, of "Inr [''192.0.2.53'']" "answers 0 []" NewClient]
      server_normalization_examples [OF d t, of noConfig "answers 0 []" NewClient]
    unfolding s f by simp
qed

subsection \<open>The prepared server is a host and a port\<close>

lemma IndexByte_None_iff: "IndexByte s c = None \<longleftrightarrow> c \<notin> set s"
  by (induction s) auto

lemma IndexByte_append_first: "c \<notin> set xs \<Longrightarrow> IndexByte (xs @ c # ys) c = Some (length xs)"
  by (induction xs) auto

lemma Contains_single: "Contains s [c] \<longleftrightarrow> c \<in> set s"
  unfolding Contains_iff by (metis append_Cons append_Nil in_set_conv_decomp)

lemma parseIPv4Fields_chars:
  "parseIPv4Fields s val digLen octets prev = Some r \<Longrightarrow> \<forall>c\<in>set s. isDigit c \<or> c = CHR ''.''"
  by (induction s arbitrary: val digLen octets prev) (auto split: if_splits)

text \<open>An address that the IPv6 loop accepts holds hexadecimal digits, colons and dots only.\<close>

lemma v6loop_chars:
  "v6loop s i ellipsis ip = Some r \<Longrightarrow>
     \<forall>c\<in>set s. isHexDigit c \<or> c = CHR '':'' \<or> c = CHR ''.''"
proof (induction s i ellipsis ip rule: v6loop.induct)
  case (1 s i ellipsis ip)
  let ?ok = "\<lambda>c. isHexDigit c \<or> c = CHR '':'' \<or> c = CHR ''.''"
  let ?ip = "ip @ [hexAcc s div 256, hexAcc s mod 256]"
  have s: "s = hexDigits s @ afterHex s"
    by (simp add: hexDigits_def afterHex_def)
  have hex: "\<forall>c\<in>set (hexDigits s). ?ok c"
    by (auto simp: hexDigits_def dest: set_takeWhileD)
  have after: "\<forall>c\<in>set s. ?ok c" if "\<forall>c\<in>set (afterHex s). ?ok c"
    using that hex by (subst s) auto
  from "1.prems" have run: "v6loop s i ellipsis ip = Some r" .
  show ?case
  proof (cases "i < 16")
    case False
    with run have "v6finish s i ellipsis ip = Some r"
      by (subst (asm) v6loop.simps) simp
    then have "s = []"
      by (simp add: v6finish_def split: if_splits)
    then show ?thesis by simp
  next
    case i: True
    from run i have h4: "\<not> length (hexDigits s) > 4" and hne: "hexDigits s \<noteq> []"
      by (subst (asm) v6loop.simps, simp split: if_splits)+
    show ?thesis
    proof (cases "afterHex s \<noteq> [] \<and> hd (afterHex s) = CHR ''.''")
      case True
      with run i h4 hne obtain octets where "parseIPv4Fields s 0 0 [] None = Some octets"
        by (subst (asm) v6loop.simps) (auto split: if_splits option.splits)
      from parseIPv4Fields_chars [OF this] show ?thesis
        by (auto simp: isDigit_def isHexDigit_def)
    next
      case dot: False
      show ?thesis
      proof (cases "afterHex s = []")
        case True
        with after show ?thesis by simp
      next
        case ne: False
        from run i h4 hne dot ne have c: "hd (afterHex s) = CHR '':''"
          and l: "length (afterHex s) \<noteq> 1"
          by (subst (asm) v6loop.simps, simp split: if_splits)+
        from ne c l obtain t where t: "afterHex s = CHR '':'' # t" and tne: "t \<noteq> []"
          by (cases "afterHex s") auto
        show ?thesis
        proof (cases "hd t = CHR '':''")
          case True
          with tne obtain t' where t': "t = CHR '':'' # t'"
            by (cases t) auto
          from run i h4 hne dot ne c l t t' have e: "ellipsis = None"
            by (subst (asm) v6loop.simps) (simp split: if_splits)
          show ?thesis
          proof (cases "t' = []")
            case True
            with t t' after show ?thesis by simp
          next
            case False
            from run i h4 hne dot ne c l t t' e False
            have "v6loop t' (i + 2) (Some (i + 2)) ?ip = Some r"
              by (subst (asm) v6loop.simps) simp
            with "1.IH"(1) i h4 hne dot ne c l t t' e False have "\<forall>c\<in>set t'. ?ok c"
              by simp
            with t t' after show ?thesis by simp
          qed
        next
          case False
          from run i h4 hne dot ne c l t False
          have "v6loop t (i + 2) ellipsis ?ip = Some r"
            by (subst (asm) v6loop.simps) simp
          with "1.IH"(2) i h4 hne dot ne c l t False have "\<forall>c\<in>set t. ?ok c"
            by simp
          with t after show ?thesis by simp
        qed
      qed
    qed
  qed
qed

lemma parseIPv6_unfold:
  "parseIPv6 s =
     (if IndexByte s CHR ''%'' \<noteq> None
          \<and> drop (length (takeWhile (\<lambda>c. c \<noteq> CHR ''%'') s) + 1) s = [] then None
      else if HasPrefix (takeWhile (\<lambda>c. c \<noteq> CHR ''%'') s) ''::'' then
        (if drop 2 (takeWhile (\<lambda>c. c \<noteq> CHR ''%'') s) = [] then
           Some (replicate 16 0, drop (length (takeWhile (\<lambda>c. c \<noteq> CHR ''%'') s) + 1) s)
         else
           map_option (\<lambda>ip. (ip, drop (length (takeWhile (\<lambda>c. c \<noteq> CHR ''%'') s) + 1) s))
             (v6loop (drop 2 (takeWhile (\<lambda>c. c \<noteq> CHR ''%'') s)) 0 (Some 0) []))
      else
        map_option (\<lambda>ip. (ip, drop (length (takeWhile (\<lambda>c. c \<noteq> CHR ''%'') s) + 1) s))
          (v6loop (takeWhile (\<lambda>c. c \<noteq> CHR ''%'') s) 0 None []))"
  unfolding parseIPv6_def Let_def ..

lemma parseIPv6_no_zone:
  assumes "parseIPv6 s = Some (ip, [])"
  shows "CHR ''%'' \<notin> set s"
proof
  assume "CHR ''%'' \<in> set s"
  then have i: "IndexByte s CHR ''%'' \<noteq> None"
    by (simp add: IndexByte_None_iff)
  let ?z = "drop (length (takeWhile (\<lambda>c. c \<noteq> CHR ''%'') s) + 1) s"
  show False
  proof (cases "?z = []")
    case True
    with i have "parseIPv6 s = None"
      by (subst parseIPv6_unfold) simp
    with assms show False by simp
  next
    case False
    have "snd r = ?z" if "parseIPv6 s = Some r" for r
      using that by (subst (asm) parseIPv6_unfold) (auto split: if_splits)
    from this [OF assms] False show False by simp
  qed
qed

lemma ParseIP_chars:
  assumes "ParseIP s = Some ip"
  shows "\<forall>c\<in>set s. isHexDigit c \<or> c = CHR '':'' \<or> c = CHR ''.''"
proof -
  from assms obtain c where
    f: "find (\<lambda>c. c = CHR ''.'' \<or> c = CHR '':'' \<or> c = CHR ''%'') s = Some c"
    unfolding ParseIP_def by (cases "find (\<lambda>c. c = CHR ''.'' \<or> c = CHR '':'' \<or> c = CHR ''%'') s") simp_all
  from assms have run: "(if c = CHR ''.'' then map_option (\<lambda>octets. v4InV6Prefix @ octets) (parseIPv4 s)
          else if c = CHR '':'' then
            (case parseIPv6 s of
               None \<Rightarrow> None
             | Some (ip, zone) \<Rightarrow> if zone \<noteq> [] then None else Some ip)
          else None) = Some ip"
    unfolding ParseIP_def f by simp
  show ?thesis
  proof (cases "c = CHR ''.''")
    case True
    with run obtain octets where "parseIPv4Fields s 0 0 [] None = Some octets"
      unfolding parseIPv4_def by auto
    from parseIPv4Fields_chars [OF this] show ?thesis
      by (auto simp: isDigit_def isHexDigit_def)
  next
    case False
    with run have 6: "parseIPv6 s = Some (ip, [])"
      by (simp split: if_splits option.splits prod.splits)
    from parseIPv6_no_zone [OF 6] have "\<forall>x\<in>set s. x \<noteq> CHR ''%''"
      by blast
    then have tw: "takeWhile (\<lambda>c. c \<noteq> CHR ''%'') s = s"
      by (simp add: takeWhile_eq_all_conv)
    from 6 have 6: "(if HasPrefix s ''::'' then
        (if drop 2 s = [] then Some (replicate 16 0, drop (length s + 1) s)
         else map_option (\<lambda>ip. (ip, drop (length s + 1) s)) (v6loop (drop 2 s) 0 (Some 0) []))
      else map_option (\<lambda>ip. (ip, drop (length s + 1) s)) (v6loop s 0 None [])) = Some (ip, [])"
      by (subst (asm) parseIPv6_unfold) (simp add: tw split: if_splits)
    show ?thesis
    proof (cases "HasPrefix s ''::''")
      case True
      then obtain v where v: "s = ''::'' @ v"
        by (auto simp: HasPrefix_iff)
      show ?thesis
      proof (cases "v = []")
        case True
        with v show ?thesis by simp
      next
        case False
        with 6 True v obtain r where "v6loop v 0 (Some 0) [] = Some r"
          by auto
        from v6loop_chars [OF this] v show ?thesis by simp
      qed
    next
      case False
      with 6 obtain r where "v6loop s 0 None [] = Some r"
        by auto
      from v6loop_chars [OF this] show ?thesis .
    qed
  qed
qed

lemma ParseIP_no_brackets:
  assumes "ParseIP s \<noteq> None"
  shows "CHR ''['' \<notin> set s \<and> CHR '']'' \<notin> set s \<and> s \<noteq> []"
proof -
  from assms obtain ip where ip: "ParseIP s = Some ip" by blast
  have "\<not> isHexDigit CHR ''[''" "\<not> isHexDigit CHR '']''"
    by (simp_all add: isHexDigit_def)
  with ParseIP_chars [OF ip] have "CHR ''['' \<notin> set s \<and> CHR '']'' \<notin> set s"
    by auto
  moreover from ip have "s \<noteq> []"
    by (auto simp: ParseIP_def)
  ultimately show ?thesis by simp
qed

text \<open>Appending the default port to a bare address, in brackets when it holds a colon.\<close>

lemma SplitHostPort_plain:
  assumes "ParseIP a \<noteq> None" and "\<not> Contains a '':''"
  shows "SplitHostPort (a @ '':53'') = Inr (a, ''53'')"
proof -
  from ParseIP_no_brackets [OF assms(1)] have b: "CHR ''['' \<notin> set a" "CHR '']'' \<notin> set a"
    and ne: "a \<noteq> []"
    by simp_all
  from assms(2) have c: "CHR '':'' \<notin> set a"
    by (simp add: Contains_single)
  from ne b have h: "hd (a @ '':53'') \<noteq> CHR ''[''"
    by (cases a) auto
  have l: "LastIndexByte (a @ '':53'') CHR '':'' = Some (length a)"
    by (simp add: LastIndexByte_def)
  show ?thesis
    unfolding SplitHostPort_def l splitTail_def Let_def
    using h b c by (simp add: IndexByte_None_iff)
qed

lemma SplitHostPort_bracketed:
  assumes "ParseIP a \<noteq> None"
  shows "SplitHostPort (''['' @ a @ '']:53'') = Inr (a, ''53'')"
proof -
  from ParseIP_no_brackets [OF assms] have b: "CHR ''['' \<notin> set a" "CHR '']'' \<notin> set a"
    by simp_all
  have l: "LastIndexByte (''['' @ a @ '']:53'') CHR '':'' = Some (length a + 2)"
    by (simp add: LastIndexByte_def)
  have e: "IndexByte (''['' @ a @ '']:53'') CHR '']'' = Some (length a + 1)"
    using IndexByte_append_first [of "CHR '']''" "CHR ''['' # a" "'':53''"] b by simp
  show ?thesis
    unfolding SplitHostPort_def l e splitTail_def
    using b by (simp add: IndexByte_None_iff)
qed

lemma port53: "ValidateDNSPort ''53'' = None"
  by (simp add: ValidateDNSPort_def)

lemma ValidateDNSServer_ParseIP: "ValidateDNSServer host = None \<Longrightarrow> ParseIP host \<noteq> None"
  unfolding ValidateDNSServer_def by (auto split: if_splits option.splits)

lemma splitAndValidate_hostport: "splitAndValidate server = Inr fs \<Longrightarrow> isHostPort fs"
  unfolding splitAndValidate_def isHostPort_def
  by (auto split: sum.splits option.splits dest: ValidateDNSServer_ParseIP)

text \<open>Whatever a server that was given is prepared to is a host and a port.\<close>

lemma prepareServer_hostport:
  assumes "server \<noteq> []" and "prepareServer w server = Inr fs"
  shows "isHostPort fs"
proof (cases "HasPrefix server ''['' \<and> Contains server '']:''")
  case True
  with assms have "splitAndValidate server = Inr fs"
    by (simp add: prepareServer_def)
  then show ?thesis by (rule splitAndValidate_hostport)
next
  case False
  then have 1: "(HasPrefix server ''['' \<and> Contains server '']:'') = False"
    by simp
  show ?thesis
  proof (cases "\<not> Contains server '':'' \<or> ParseIP server \<noteq> None")
    case False
    then have 2: "(\<not> Contains server '':'' \<or> ParseIP server \<noteq> None) = False"
      by simp
    from assms have "splitAndValidate server = Inr fs"
      unfolding prepareServer_def 1 2 by simp
    then show ?thesis by (rule splitAndValidate_hostport)
  next
    case True
    then have 2: "(\<not> Contains server '':'' \<or> ParseIP server \<noteq> None) = True"
      by simp
    from assms have r: "(case ValidateDNSServer server of
           Some e \<Rightarrow> Inl e
         | None \<Rightarrow>
             if Contains server '':'' \<and> ParseIP server \<noteq> None then
               Inr (''['' @ server @ '']:53'')
             else Inr (server @ '':53'')) = Inr fs"
      unfolding prepareServer_def 1 2 by simp
    then have v: "ValidateDNSServer server = None"
      by (simp split: option.splits)
    then have p: "ParseIP server \<noteq> None"
      by (rule ValidateDNSServer_ParseIP)
    show ?thesis
    proof (cases "Contains server '':''")
      case True
      with r v p have "fs = ''['' @ server @ '']:53''"
        by simp
      with SplitHostPort_bracketed [OF p] p show ?thesis
        by (simp add: isHostPort_def port53)
    next
      case False
      with r v have "fs = server @ '':53''"
        by simp
      with SplitHostPort_plain [OF p False] p show ?thesis
        by (simp add: isHostPort_def port53)
    qed
  qed
qed

lemma getSystemDNS_systemResolver:
  "getSystemDNS w =
     (case systemResolver w of
        Some a \<Rightarrow> Inr (a @ '':53'')
      | None \<Rightarrow> getSystemDNS w)
   \<and> (systemResolver w = None \<longrightarrow> (\<exists>e. getSystemDNS w = Inl e))"
  unfolding getSystemDNS_def getWindowsDNS_def getUnixDNS_def systemResolver_def
  by (auto split: sum.splits list.splits)

text \<open>
  For the empty server: the fallback is a host and a port, and so is a resolver that was
  found when it is an address without a colon.
\<close>

lemma prepareServer_empty_hostport:
  assumes "prepareServer w [] = Inr fs"
      and "case systemResolver w of None \<Rightarrow> True
           | Some a \<Rightarrow> ParseIP a \<noteq> None \<and> \<not> Contains a '':''"
  shows "isHostPort fs"
proof (cases "systemResolver w")
  case None
  with getSystemDNS_systemResolver [of w] obtain e where "getSystemDNS w = Inl e"
    by auto
  with assms(1) have "fs = ''8.8.8.8:53''"
    by (simp add: prepareServer_def)
  then show ?thesis
    by (simp add: isHostPort_def net_eval)
next
  case (Some a)
  with getSystemDNS_systemResolver [of w] have "getSystemDNS w = Inr (a @ '':53'')"
    by simp
  with assms(1) have fs: "fs = a @ '':53''"
    by (simp add: prepareServer_def)
  from assms(2) Some have p: "ParseIP a \<noteq> None" and c: "\<not> Contains a '':''"
    by simp_all
  from SplitHostPort_plain [OF p c] p show ?thesis
    unfolding fs by (simp add: isHostPort_def port53)
qed

text \<open>
  Claim C2, as stated, is refuted: when the domain is rejected, the result of
  \<open>Query\<close> holds the server as it was passed, \<open>8.8.8.8\<close>, and not the normalized
  \<open>8.8.8.8:53\<close> that preparing this server gives.
\<close>

theorem server_field_on_validation_failure_counterexample:
  "Result.Server (result (Query (mockWorld noConfig timesOut) NewClient [] ''A'' ''8.8.8.8''))
     = ''8.8.8.8''
   \<and> prepareServer (mockWorld noConfig timesOut) ''8.8.8.8'' = Inr ''8.8.8.8:53''
   \<and> err (Query (mockWorld noConfig timesOut) NewClient [] ''A'' ''8.8.8.8'')
     = Some (NewInputError ''domain name cannot be empty'' None)"
proof -
  have d: "ValidateDomain [] = Some (NewInputError ''domain name cannot be empty'' None)"
    by (simp add: ValidateDomain_def)
  show ?thesis
    unfolding Query_def Let_def d by (simp add: prepare_ipv4)
qed

text \<open>
  Claim C2, amended. When the domain and the record type pass validation and the
  server is prepared from a server that was given, from the fallback, or from a system
  resolver that is an address without a colon, the result holds the prepared server on
  every later path: failed exchange, missing response, failure code, empty answer and
  success. That server is a normalized host and port, which \<open>net.SplitHostPort\<close> splits
  into an IP literal and a valid port, and the one question is addressed to it. When a
  validation or the preparation of the server fails, nothing is sent and the result holds
  the server as it was passed. A system resolver of another form is left open.
\<close>

theorem server_field_of_result:
  "(ValidateDomain domain = None \<and> ValidateRecordType (unicodeUpper w) recordType = None
      \<and> prepareServer w server = Inr finalServer
      \<and> (server = [] \<longrightarrow>
            (case systemResolver w of
               None \<Rightarrow> True
             | Some a \<Rightarrow> ParseIP a \<noteq> None \<and> \<not> Contains a '':''))
    \<longrightarrow> Result.Server (result (Query w c domain recordType server)) = finalServer
        \<and> isHostPort finalServer
        \<and> (\<exists>qt. sent (Query w c domain recordType server)
              = [\<lparr>qname = Fqdn w domain, qtype = qt, recursionDesired = True,
                   qserver = finalServer\<rparr>]))
   \<and> (ValidateDomain domain \<noteq> None \<or> ValidateRecordType (unicodeUpper w) recordType \<noteq> None
        \<or> (\<exists>e. prepareServer w server = Inl e)
    \<longrightarrow> Result.Server (result (Query w c domain recordType server)) = server
        \<and> sent (Query w c domain recordType server) = [])"
proof -
  have "isHostPort finalServer"
    if "prepareServer w server = Inr finalServer"
      and "server = [] \<longrightarrow>
            (case systemResolver w of
               None \<Rightarrow> True
             | Some a \<Rightarrow> ParseIP a \<noteq> None \<and> \<not> Contains a '':'')"
  proof (cases "server = []")
    case True
    with that show ?thesis
      by (intro prepareServer_empty_hostport [of w]) simp_all
  next
    case False
    with that(1) show ?thesis
      by (intro prepareServer_hostport [of server w])
  qed
  then show ?thesis
    using Query_prepared [of domain w recordType server finalServer c]
      Query_unprepared [of domain w recordType server c]
    by blast
qed

theorem server_field_of_result_witness:
  "Result.Server (result (Query (mockWorld noConfig timesOut) NewClient ''example.com''
        ''A'' ''::1'')) = ''[::1]:53''
   \<and> isHostPort ''[::1]:53''
   \<and> Result.Server (result (Query (mockWorld noConfig timesOut) NewClient ''example.com''
        ''A'' [])) = ''8.8.8.8:53''
   \<and> isHostPort ''8.8.8.8:53''
   \<and> (\<exists>e. prepareServer (mockWorld noConfig timesOut) ''1.1.1.1:99999'' = Inl e)
   \<and> Result.Server (result (Query (mockWorld noConfig timesOut) NewClient ''example.com''
        ''A'' ''1.1.1.1:99999'')) = ''1.1.1.1:99999''"
proof -
  let ?w = "mockWorld noConfig timesOut"
  have d: "ValidateDomain ''example.com'' = None"
    by code_simp
  have t: "ValidateRecordType (unicodeUpper ?w) ''A'' = None"
    unfolding mockWorld_def by simp code_simp
  have p: "prepareServer ?w ''::1'' = Inr ''[::1]:53''"
    by (rule prepare_ipv6)
  have r: "systemResolver ?w = None"
    by (simp add: systemResolver_def mockWorld_def noConfig_def)
  have f: "prepareServer ?w [] = Inr ''8.8.8.8:53''"
    by (simp add: prepareServer_def getSystemDNS_def getUnixDNS_def mockWorld_def noConfig_def)
  have q: "\<exists>e. prepareServer ?w ''1.1.1.1:99999'' = Inl e"
    by (simp add: prepareServer_def splitAndValidate_def net_eval)
  have 1: "Result.Server (result (Query ?w NewClient ''example.com'' ''A'' ''::1'')) = ''[::1]:53''
      \<and> isHostPort ''[::1]:53''"
    using server_field_of_result [of "''example.com''" ?w "''A''" "''::1''" "''[::1]:53''"
        NewClient] d t p
    by simp
  have 2: "Result.Server (result (Query ?w NewClient ''example.com'' ''A'' [])) = ''8.8.8.8:53''
      \<and> isHostPort ''8.8.8.8:53''"
    using server_field_of_result [of "''example.com''" ?w "''A''" "[]" "''8.8.8.8:53''"
        NewClient] d t f r
    by simp
  have 3: "Result.Server (result (Query ?w NewClient ''example.com'' ''A'' ''1.1.1.1:99999''))
      = ''1.1.1.1:99999''"
    using server_field_of_result [of "''example.com''" ?w "''A''" "''1.1.1.1:99999''" "[]"
        NewClient] q
    by blast
  from 1 2 3 q show ?thesis
    by blast
qed

subsection \<open>A bracketed address without a port\<close>

lemma IndexByte_Some: "IndexByte s c = Some n \<Longrightarrow> n < length s \<and> s ! n = c"
  by (induction s arbitrary: n) (auto split: if_splits)

lemma LastIndexByte_Some:
  assumes "LastIndexByte s c = Some i"
  shows "i < length s \<and> s ! i = c"
proof -
  from assms obtain j where j: "IndexByte (rev s) c = Some j" and i: "i = length s - 1 - j"
    unfolding LastIndexByte_def by (auto split: option.splits)
  from IndexByte_Some [OF j] have "j < length s" and "rev s ! j = c" by simp_all
  then show ?thesis
    unfolding i by (simp add: rev_nth)
qed

lemma Contains_pair:
  assumes "Suc n < length s" and "s ! n = a" and "s ! Suc n = b"
  shows "Contains s [a, b]"
proof -
  have "s = take n s @ [a, b] @ drop (Suc (Suc n)) s"
    using assms by (metis Cons_nth_drop_Suc Suc_lessD append_Cons append_Nil append_take_drop_id)
  then show ?thesis
    unfolding Contains_iff by blast
qed

lemma SplitHostPort_bracket_no_port:
  assumes "HasPrefix s ''[''" and "\<not> Contains s '']:''"
  shows "\<exists>e. SplitHostPort s = Inl e"
proof (cases "LastIndexByte s CHR '':''")
  case None
  then show ?thesis by (simp add: SplitHostPort_def)
next
  case (Some i)
  from assms(1) have h: "hd s = CHR ''[''"
    by (auto simp: HasPrefix_iff)
  show ?thesis
  proof (cases "IndexByte s CHR '']''")
    case None
    with Some h show ?thesis by (simp add: SplitHostPort_def)
  next
    case (Some e)
    note e = IndexByte_Some [OF Some]
    note i = LastIndexByte_Some [OF \<open>LastIndexByte s CHR '':'' = Some i\<close>]
    have "e + 1 \<noteq> i"
    proof
      assume "e + 1 = i"
      with e i have "Contains s '']:''"
        by (intro Contains_pair [of e]) auto
      with assms(2) show False by simp
    qed
    with Some \<open>LastIndexByte s CHR '':'' = Some i\<close> h show ?thesis
      by (simp add: SplitHostPort_def)
  qed
qed

lemma ParseIP_bracket:
  assumes "HasPrefix s ''[''"
  shows "ParseIP s = None"
proof -
  from assms obtain cs where s: "s = CHR ''['' # cs"
    by (auto simp: HasPrefix_iff)
  have 4: "parseIPv4 s = None"
    unfolding s parseIPv4_def by (simp add: isDigit_def)
  have "v6loop (takeWhile (\<lambda>c. c \<noteq> CHR ''%'') s) 0 None [] = None"
    unfolding s by (subst v6loop.simps) (simp add: hexDigits_def isHexDigit_def)
  then have 6: "parseIPv6 s = None"
    unfolding parseIPv6_def Let_def by (simp add: s HasPrefix_def)
  show ?thesis
    unfolding ParseIP_def using 4 6 by (simp split: option.splits)
qed

text \<open>
  Claim C10. A server that is a bracketed IPv6 literal without a port (it starts with
  \<open>[\<close>, holds a colon as every IPv6 literal does, and holds no \<open>]:\<close>) makes \<open>Query\<close>,
  on a valid domain and record type, return the Input-kind error ``invalid DNS server
  format: SERVER'', caused by the error of \<open>net.SplitHostPort\<close>, with empty records and no
  question sent.
\<close>

theorem bracketed_without_port_rejected:
  assumes "ValidateDomain domain = None"
      and "ValidateRecordType (unicodeUpper w) recordType = None"
      and "HasPrefix server ''[''"
      and "Contains server '':''"
      and "\<not> Contains server '']:''"
  shows "\<exists>cause. SplitHostPort server = Inl cause
       \<and> err (Query w c domain recordType server)
           = Some \<lparr>Type = ErrorTypeInput,
                   Message = ''invalid DNS server format: '' @ server,
                   Cause = Some cause, Domain = [], Server = []\<rparr>
       \<and> Records (result (Query w c domain recordType server)) = []
       \<and> sent (Query w c domain recordType server) = []"
proof -
  from SplitHostPort_bracket_no_port [OF assms(3,5)]
  obtain cause where cause: "SplitHostPort server = Inl cause" by blast
  from assms(3) have ne: "server \<noteq> []"
    by (auto simp: HasPrefix_iff)
  have p: "prepareServer w server
      = Inl (NewInputError (''invalid DNS server format: '' @ server) (Some cause))"
    unfolding prepareServer_def splitAndValidate_def
    using ne assms(4,5) ParseIP_bracket [OF assms(3)] cause by simp
  have "err (Query w c domain recordType server)
      = Some (NewInputError (''invalid DNS server format: '' @ server) (Some cause))"
    unfolding Query_def Let_def using assms(1,2) p by simp
  moreover have "Records (result (Query w c domain recordType server)) = []
      \<and> sent (Query w c domain recordType server) = []"
    using Query_unprepared [of domain w recordType server c] p by simp
  ultimately show ?thesis
    using cause by (simp add: NewInputError_def)
qed

theorem bracketed_without_port_rejected_witness:
  "map_option Message
     (err (Query (mockWorld noConfig timesOut) NewClient ''example.com'' ''A'' ''[::1]''))
     = Some ''invalid DNS server format: [::1]''
   \<and> map_option Type
     (err (Query (mockWorld noConfig timesOut) NewClient ''example.com'' ''A'' ''[::1]''))
     = Some ErrorTypeInput
   \<and> sent (Query (mockWorld noConfig timesOut) NewClient ''example.com'' ''A'' ''[::1]'') = []"
proof -
  let ?w = "mockWorld noConfig timesOut"
  have d: "ValidateDomain ''example.com'' = None"
    by code_simp
  have t: "ValidateRecordType (unicodeUpper ?w) ''A'' = None"
    unfolding mockWorld_def by simp code_simp
  have 1: "HasPrefix ''[::1]'' ''[''"
    by (simp add: HasPrefix_def)
  have 2: "Contains ''[::1]'' '':''"
    by (simp add: HasPrefix_def)
  have 3: "\<not> Contains ''[::1]'' '']:''"
    by (simp add: HasPrefix_def)
  from bracketed_without_port_rejected [OF d t 1 2 3, of NewClient] show ?thesis
    by auto
qed

subsection \<open>Classifying network errors\<close>

text \<open>
  On ASCII text, a pattern occurs in the lower-cased text exactly when some stretch of the
  text equals the pattern once its capital letters are made small.
\<close>

lemma Contains_map:
  "Contains (map f s) p \<longleftrightarrow> (\<exists>u v x. s = u @ v @ x \<and> map f v = p)"
proof
  assume "Contains (map f s) p"
  then obtain u' x' where "map f s = u' @ p @ x'"
    unfolding Contains_iff by blast
  then obtain u r where s: "s = u @ r" and r: "p @ x' = map f r"
    unfolding map_eq_append_conv by blast
  from r have "map f r = p @ x'"
    by simp
  then obtain v x where "r = v @ x" and "p = map f v"
    unfolding map_eq_append_conv by blast
  with s show "\<exists>u v x. s = u @ v @ x \<and> map f v = p"
    by blast
next
  assume "\<exists>u v x. s = u @ v @ x \<and> map f v = p"
  then obtain u v x where "s = u @ v @ x" and "map f v = p"
    by blast
  then have "map f s = map f u @ p @ map f x"
    by simp
  then show "Contains (map f s) p"
    by (simp add: Contains_middle)
qed

lemma Contains_ToLower_ASCII:
  assumes "isASCII text"
  shows "Contains (ToLower lower text) p
     \<longleftrightarrow> (\<exists>u v x. text = u @ v @ x \<and> map lowerByte v = p)"
  using assms by (simp add: ToLower_def Contains_map)

text \<open>
  Claim C8. \<open>ClassifyNetworkError\<close> passes \<open>nil\<close> through. For an error it gives a
  Network-kind error with that error as cause and the server as context; the message is
  chosen by the patterns that occur in the lower-cased text of the error, in the order
  timeout or deadline exceeded, connection refused, no such host, network unreachable,
  permission denied, and the generic message when none occurs. On ASCII text that is
  substring matching without regard to case.
\<close>

theorem ClassifyNetworkError_by_pattern:
  "ClassifyNetworkError lower None server = None
   \<and> ClassifyNetworkError lower (Some e) server
       = Some \<lparr>Type = ErrorTypeNetwork,
               Message = networkMessage (Contains (ToLower lower (errorText e))),
               Cause = Some e, Domain = [], Server = server\<rparr>
   \<and> (isASCII (errorText e) \<longrightarrow>
        (\<forall>p. Contains (ToLower lower (errorText e)) p
           \<longleftrightarrow> (\<exists>u v x. errorText e = u @ v @ x \<and> map lowerByte v = p)))"
proof -
  let ?has = "Contains (ToLower lower (errorText e))"
  have m: "ClassifyNetworkError lower (Some e) server
      = Some (NewNetworkError (networkMessage ?has) (Some e) server)"
  proof (cases "?has ''timeout'' \<or> ?has ''deadline exceeded''")
    case True
    then show ?thesis
      unfolding ClassifyNetworkError_def networkMessage_def Let_def by simp
  next
    case 1: False
    show ?thesis
    proof (cases "?has ''connection refused''")
      case True
      with 1 show ?thesis
        unfolding ClassifyNetworkError_def networkMessage_def Let_def by simp
    next
      case 2: False
      show ?thesis
      proof (cases "?has ''no such host''")
        case True
        with 1 2 show ?thesis
          unfolding ClassifyNetworkError_def networkMessage_def Let_def by simp
      next
        case 3: False
        show ?thesis
        proof (cases "?has ''network unreachable''")
          case True
          with 1 2 3 show ?thesis
            unfolding ClassifyNetworkError_def networkMessage_def Let_def by simp
        next
          case 4: False
          with 1 2 3 show ?thesis
            unfolding ClassifyNetworkError_def networkMessage_def Let_def by simp
        qed
      qed
    qed
  qed
  have a: "isASCII (errorText e) \<longrightarrow>
      (\<forall>p. ?has p \<longleftrightarrow> (\<exists>u v x. errorText e = u @ v @ x \<and> map lowerByte v = p))"
    using Contains_ToLower_ASCII [of "errorText e" lower] by blast
  have n: "ClassifyNetworkError lower None server = None"
    by (simp add: ClassifyNetworkError_def)
  show ?thesis
    using m a n unfolding NewNetworkError_def by blast
qed

theorem ClassifyNetworkError_by_pattern_witness:
  "ClassifyNetworkError (\<lambda>s. s) (Some (GoError ''dial udp 127.0.0.1:53: Connection REFUSED''))
     ''127.0.0.1:53''
   = Some \<lparr>Type = ErrorTypeNetwork,
           Message =
             ''DNS server refused connection - server may be down or not accepting queries'',
           Cause = Some (GoError ''dial udp 127.0.0.1:53: Connection REFUSED''),
           Domain = [], Server = ''127.0.0.1:53''\<rparr>"
proof -
  let ?e = "GoError ''dial udp 127.0.0.1:53: Connection REFUSED''"
  have l: "ToLower (\<lambda>s. s) (errorText ?e) = ''dial udp 127.0.0.1:53: connection refused''"
    by code_simp
  have m: "networkMessage (Contains (ToLower (\<lambda>s. s) (errorText ?e)))
      = ''DNS server refused connection - server may be down or not accepting queries''"
    unfolding l networkMessage_def by (simp add: HasPrefix_def)
  from ClassifyNetworkError_by_pattern [of "\<lambda>s. s" "''127.0.0.1:53''" ?e] show ?thesis
    unfolding m by simp
qed

subsection \<open>Labels of a domain\<close>

lemma HasPrefix_single: "HasPrefix s [c] \<longleftrightarrow> s \<noteq> [] \<and> hd s = c"
  unfolding HasPrefix_def by (cases s) auto

lemma HasSuffix_single: "HasSuffix s [c] \<longleftrightarrow> s \<noteq> [] \<and> last s = c"
  by (cases s rule: rev_cases) (simp_all add: HasSuffix_def)

lemma Contains_double_Cons:
  "Contains (x # xs) [c, c] \<longleftrightarrow> (x = c \<and> xs \<noteq> [] \<and> hd xs = c) \<or> Contains xs [c, c]"
  by (cases xs) (auto simp: HasPrefix_def)

lemma Split_not_Nil: "Split s c \<noteq> []"
  by (induction s) (auto split: list.splits)

lemma Split_Nil: "Split [] c = [[]]"
  by simp

lemma Split_Cons:
  "Split (x # xs) c =
     (if x = c then [] # Split xs c else (x # hd (Split xs c)) # tl (Split xs c))"
  using Split_not_Nil [of xs c] by (cases "Split xs c") auto

declare Split.simps [simp del]

text \<open>
  An empty label arises exactly from an empty domain, a separator at either end, or two
  separators in a row.
\<close>

lemma empty_label_iff:
  "([] \<in> set (tl (Split s c)) \<longleftrightarrow> HasSuffix s [c] \<or> Contains s [c, c])
   \<and> ([] \<in> set (Split s c)
        \<longleftrightarrow> s = [] \<or> HasPrefix s [c] \<or> HasSuffix s [c] \<or> Contains s [c, c])"
proof (induction s)
  case Nil
  show ?case by (simp add: HasSuffix_def Split_Nil)
next
  case (Cons x xs)
  from Cons have T: "[] \<in> set (tl (Split xs c)) \<longleftrightarrow> HasSuffix xs [c] \<or> Contains xs [c, c]"
    and E: "[] \<in> set (Split xs c)
      \<longleftrightarrow> xs = [] \<or> HasPrefix xs [c] \<or> HasSuffix xs [c] \<or> Contains xs [c, c]"
    by blast+
  have suffix: "HasSuffix (x # xs) [c] \<longleftrightarrow> (xs = [] \<and> x = c) \<or> HasSuffix xs [c]"
    unfolding HasSuffix_single by simp
  have double: "Contains (x # xs) [c, c] \<longleftrightarrow> (x = c \<and> HasPrefix xs [c]) \<or> Contains xs [c, c]"
    unfolding Contains_double_Cons HasPrefix_single by simp
  have prefix: "HasPrefix (x # xs) [c] \<longleftrightarrow> x = c"
    unfolding HasPrefix_single by simp
  show ?case
  proof (cases "x = c")
    case True
    have 1: "Split (x # xs) c = [] # Split xs c"
      using True by (simp add: Split_Cons)
    show ?thesis
      unfolding 1 suffix double prefix using True E by auto
  next
    case False
    have 1: "Split (x # xs) c = (x # hd (Split xs c)) # tl (Split xs c)"
      using False by (simp add: Split_Cons)
    show ?thesis
      unfolding 1 suffix double prefix using False T by auto
  qed
qed

lemma labels_nonempty:
  assumes "s \<noteq> []" and "\<not> Contains s [c, c]" and "\<not> HasPrefix s [c]" and "\<not> HasSuffix s [c]"
  shows "list_all (\<lambda>l. l \<noteq> []) (Split s c)"
  using assms empty_label_iff [of s c] by (auto simp: list_all_iff)

text \<open>The last label ends as the domain ends, unless the domain ends with the separator.\<close>

lemma last_label_last:
  assumes "s \<noteq> []" and "last s \<noteq> c"
  shows "last (Split s c) \<noteq> [] \<and> last (last (Split s c)) = last s"
  using assms
proof (induction s)
  case Nil
  then show ?case by simp
next
  case (Cons x xs)
  note S = Split_not_Nil [of xs c]
  show ?case
  proof (cases "xs = []")
    case True
    with Cons.prems show ?thesis by (simp add: Split_Cons Split_Nil)
  next
    case False
    with Cons have IH: "last (Split xs c) \<noteq> []" "last (last (Split xs c)) = last xs"
      by simp_all
    show ?thesis
    proof (cases "x = c")
      case True
      with IH S False show ?thesis
        unfolding Split_Cons by simp
    next
      case x: False
      show ?thesis
      proof (cases "tl (Split xs c) = []")
        case True
        with S have "Split xs c = [hd (Split xs c)]"
          by (cases "Split xs c") auto
        then have "last (Split xs c) = hd (Split xs c)"
          by (metis last.simps)
        with IH x False True show ?thesis
          unfolding Split_Cons by simp
      next
        case t: False
        with S have "last (tl (Split xs c)) = last (Split xs c)"
          by (cases "Split xs c") auto
        with IH x False t show ?thesis
          unfolding Split_Cons by simp
      qed
    qed
  qed
qed

lemma last_label_suffix:
  assumes "HasSuffix s [k]" and "k \<noteq> c"
  shows "HasSuffix (last (Split s c)) [k]"
  using assms last_label_last [of s c] unfolding HasSuffix_single by auto

subsection \<open>The rules of a domain name\<close>

lemma checkChars_eq:
  "checkChars d i =
     (if list_all validChar d then None
      else Some (violationError
        (InvalidChar (fmt_c (dropWhile validChar d)) (Suc (i + length (takeWhile validChar d))))))"
proof (induction d arbitrary: i)
  case Nil
  show ?case by simp
next
  case (Cons r rs)
  show ?case
  proof (cases "validChar r")
    case True
    then show ?thesis
      using Cons [of "i + 1"] by simp
  next
    case False
    then show ?thesis
      by (simp add: violationError_def)
  qed
qed

lemma checkLabels_eq:
  assumes "list_all (\<lambda>l. l \<noteq> []) ls" and "ls \<noteq> []"
  shows "checkLabels ls =
     (case find badLabel ls of
        Some l \<Rightarrow> Some (violationError (labelViolation l))
      | None \<Rightarrow> if allNumeric (last ls) then Some (violationError NumericTLD) else None)"
  using assms
proof (induction ls)
  case Nil
  then show ?case by simp
next
  case (Cons l rest)
  show ?case
  proof (cases "badLabel l")
    case True
    with Cons.prems show ?thesis
      by (auto simp: badLabel_def labelViolation_def violationError_def)
  next
    case False
    then have ok: "\<not> length l > 63" "\<not> HasPrefix l ''-''" "\<not> HasSuffix l ''-''"
      "\<not> HasSuffix l ''_''"
      by (simp_all add: badLabel_def)
    from Cons.prems have ne: "length l \<noteq> 0"
      by simp
    show ?thesis
    proof (cases "rest = []")
      case True
      with False ok ne show ?thesis
        by (simp add: violationError_def)
    next
      case rest: False
      with Cons have "checkLabels rest =
        (case find badLabel rest of
           Some l \<Rightarrow> Some (violationError (labelViolation l))
         | None \<Rightarrow> if allNumeric (last rest) then Some (violationError NumericTLD) else None)"
        by simp
      with False ok ne rest show ?thesis
        by simp
    qed
  qed
qed

text \<open>\<open>ValidateDomain\<close> reports the first violation in its own order.\<close>

lemma ValidateDomain_eq:
  "ValidateDomain d = map_option violationError (firstViolation d)"
proof (cases "d \<noteq> [] \<and> \<not> Contains d ''..'' \<and> \<not> HasPrefix d ''.'' \<and> \<not> HasSuffix d ''.''")
  case True
  then have "list_all (\<lambda>l. l \<noteq> []) (Split d CHR ''.'')"
    by (intro labels_nonempty) simp_all
  from checkLabels_eq [OF this Split_not_Nil] show ?thesis
    unfolding ValidateDomain_def firstViolation_def checkChars_eq
    by (simp add: violationError_def split: option.splits)
next
  case False
  then show ?thesis
    unfolding ValidateDomain_def firstViolation_def checkChars_eq
    by (auto simp: violationError_def)
qed

lemma find_badLabel_None:
  "find badLabel ls = None \<longleftrightarrow>
     list_all (\<lambda>l. length l \<le> 63) ls
     \<and> list_all (\<lambda>l. \<not> HasPrefix l ''-'' \<and> \<not> HasSuffix l ''-'') ls
     \<and> list_all (\<lambda>l. \<not> HasSuffix l ''_'') ls"
  unfolding find_None_iff badLabel_def list_all_iff by auto

lemma firstViolation_None_iff:
  "firstViolation d = None \<longleftrightarrow> list_all (\<lambda>b. b) (domainRules d)"
proof (cases "d \<noteq> [] \<and> \<not> Contains d ''..'' \<and> \<not> HasPrefix d ''.'' \<and> \<not> HasSuffix d ''.''")
  case True
  then have ne: "list_all (\<lambda>l. l \<noteq> []) (Split d CHR ''.'')"
    by (intro labels_nonempty) simp_all
  have u: "HasSuffix d ''_'' \<Longrightarrow> HasSuffix (last (Split d CHR ''.'')) ''_''"
    by (rule last_label_suffix) simp_all
  have l: "last (Split d CHR ''.'') \<in> set (Split d CHR ''.'')"
    using Split_not_Nil by simp
  have 6: "list_all (\<lambda>l. l \<noteq> [] \<and> length l \<le> 63) (Split d CHR ''.'')
      \<longleftrightarrow> list_all (\<lambda>l. length l \<le> 63) (Split d CHR ''.'')"
    using ne unfolding list_all_iff by auto
  have 8: "list_all (\<lambda>l. \<not> HasSuffix l ''_'') (Split d CHR ''.'') \<Longrightarrow> \<not> HasSuffix d ''_''"
    using u l unfolding list_all_iff by blast
  show ?thesis
  proof (cases "find badLabel (Split d CHR ''.'')")
    case None
    then have ok: "list_all (\<lambda>l. length l \<le> 63) (Split d CHR ''.'')"
      "list_all (\<lambda>l. \<not> HasPrefix l ''-'' \<and> \<not> HasSuffix l ''-'') (Split d CHR ''.'')"
      "list_all (\<lambda>l. \<not> HasSuffix l ''_'') (Split d CHR ''.'')"
      by (simp_all add: find_badLabel_None)
    from 8 ok have "\<not> HasSuffix d ''_''"
      by simp
    with True None ok 6 show ?thesis
      unfolding firstViolation_def domainRules_def by (simp add: not_less)
  next
    case (Some b)
    then have "find badLabel (Split d CHR ''.'') \<noteq> None"
      by simp
    then have "\<not> (list_all (\<lambda>l. length l \<le> 63) (Split d CHR ''.'')
      \<and> list_all (\<lambda>l. \<not> HasPrefix l ''-'' \<and> \<not> HasSuffix l ''-'') (Split d CHR ''.'')
      \<and> list_all (\<lambda>l. \<not> HasSuffix l ''_'') (Split d CHR ''.''))"
      unfolding find_badLabel_None .
    with Some 6 show ?thesis
      unfolding firstViolation_def domainRules_def by auto
  qed
next
  case False
  then show ?thesis
    unfolding firstViolation_def domainRules_def by auto
qed

text \<open>
  Claim C3, as stated, is refuted in its last sentence. The domain made of the label
  \<open>a-\<close> and a label of 64 letters breaks rule 6 of the stated order (a label longer than
  63), yet \<open>ValidateDomain\<close> reports rule 7 (the hyphen that ends the first label): it
  checks label by label, not rule by rule. The domain \<open>a-.b_\<close> breaks rule 7, yet the
  underscore at the end of the domain is reported, which is checked before any label.
\<close>

theorem ValidateDomain_stated_order_counterexample:
  "ValidateDomain (''a-.'' @ replicate 64 CHR ''b'')
     = Some (NewInputError ''domain label 'a-' cannot start or end with hyphen'' None)
   \<and> map_option reportedRule (ValidateDomain (''a-.'' @ replicate 64 CHR ''b'')) = Some 7
   \<and> firstViolatedRule (''a-.'' @ replicate 64 CHR ''b'') = Some 6
   \<and> ValidateDomain ''a-.b_''
     = Some (NewInputError ''domain cannot end with an underscore'' None)
   \<and> map_option reportedRule (ValidateDomain ''a-.b_'') = Some 8
   \<and> firstViolatedRule ''a-.b_'' = Some 7"
proof -
  have 1: "ValidateDomain (''a-.'' @ replicate 64 CHR ''b'')
      = Some (NewInputError ''domain label 'a-' cannot start or end with hyphen'' None)"
    by code_simp
  have 2: "reportedRule (NewInputError ''domain label 'a-' cannot start or end with hyphen'' None)
      = 7"
    by code_simp
  have 3: "firstViolatedRule (''a-.'' @ replicate 64 CHR ''b'') = Some 6"
    by code_simp
  have 4: "ValidateDomain ''a-.b_''
      = Some (NewInputError ''domain cannot end with an underscore'' None)"
    by code_simp
  have 5: "reportedRule (NewInputError ''domain cannot end with an underscore'' None) = 8"
    by code_simp
  have 6: "firstViolatedRule ''a-.b_'' = Some 7"
    by code_simp
  show ?thesis
    unfolding 1 3 4 6 using 2 5 by simp
qed

text \<open>
  Claim C3, amended. \<open>ValidateDomain\<close> returns \<open>nil\<close> exactly when the domain keeps
  all the rules. Otherwise it returns an Input-kind error, without cause, for the first
  violation it meets: empty, longer than 253, the first invalid character, two dots in a
  row, a dot at either end, a hyphen at either end, an underscore at the end; then, for
  the first label from the left that is too long, has a hyphen at either end or ends in
  an underscore, the first of these three that the label breaks; and last the numeric
  top-level label.
\<close>

theorem ValidateDomain_first_violation:
  "(ValidateDomain domain = None \<longleftrightarrow> list_all (\<lambda>b. b) (domainRules domain))
   \<and> ValidateDomain domain = map_option violationError (firstViolation domain)
   \<and> (\<forall>e. ValidateDomain domain = Some e \<longrightarrow> Type e = ErrorTypeInput \<and> Cause e = None)"
proof -
  have "ValidateDomain domain = None \<longleftrightarrow> list_all (\<lambda>b. b) (domainRules domain)"
    unfolding ValidateDomain_eq by (simp add: firstViolation_None_iff)
  moreover have "Type (violationError v) = ErrorTypeInput \<and> Cause (violationError v) = None"
    for v
    by (simp add: violationError_def NewInputError_def)
  ultimately show ?thesis
    using ValidateDomain_eq [of domain] by auto
qed

theorem ValidateDomain_first_violation_witness:
  "ValidateDomain ''_dmarc.example.com'' = None
   \<and> list_all (\<lambda>b. b) (domainRules ''_dmarc.example.com'')
   \<and> firstViolation ''mail.-example.123'' = Some (LabelHyphen ''-example'')
   \<and> ValidateDomain ''mail.-example.123''
     = Some (NewInputError ''domain label '-example' cannot start or end with hyphen'' None)"
proof -
  have r: "list_all (\<lambda>b. b) (domainRules ''_dmarc.example.com'')"
    by code_simp
  have v: "firstViolation ''mail.-example.123'' = Some (LabelHyphen ''-example'')"
    by code_simp
  have e: "violationError (LabelHyphen ''-example'')
      = NewInputError ''domain label '-example' cannot start or end with hyphen'' None"
    by code_simp
  from ValidateDomain_first_violation [of "''_dmarc.example.com''"]
    ValidateDomain_first_violation [of "''mail.-example.123''"] r v e
  show ?thesis
    by simp
qed

end
